theory Spec2Isabelle
  imports Main "HOL-Library.Char_ord" "HOL-Library.List_Lexorder"
begin

section \<open>The WebRTC-GAS signalling client (src/webrtc-gas.js)\<close>

text \<open>
  The client is a JavaScript class whose methods mutate one object and talk to two
  outside parties: the rendezvous API (one HTTP request per call) and the browser's
  peer-connection engine. The embedding is state passing over a record of the object's
  fields. What the outside parties answer is not decided by the client, so it is an
  argument of every operation (the record \<open>env\<close>). Every interaction with the outside
  is appended to a trace kept in the state, so that what was sent, emitted, closed or
  timed can be read off after the call. A JavaScript string is the list of its UTF-8
  bytes; \<open>null\<close> and \<open>undefined\<close> are \<open>None\<close> wherever the client treats the two alike.

  Each operation is followed from its call to its end, with no other task running in
  between; what another task would see of the processing flag at a point where the
  operation is suspended is recorded with each effect in the trace. Listeners are taken
  not to call back into the client.
\<close>

subsection \<open>Exceptions\<close>

datatype exn =
    Error string            \<comment> \<open>\<open>new Error(message)\<close> thrown by the client, with its message\<close>
  | TypeError               \<comment> \<open>a property read on \<open>null\<close> or \<open>undefined\<close>, a BigInt handed to
                                \<open>JSON.stringify\<close>\<close>
  | FetchError string       \<comment> \<open>\<open>fetch\<close> or \<open>response.json()\<close> rejected\<close>
  | EngineError string      \<comment> \<open>the peer-connection engine threw\<close>

subsection \<open>JavaScript values and \<open>JSON.stringify\<close>\<close>

text \<open>
  A number is kept as the text \<open>Number::toString\<close> prints for it, so that nothing depends
  on floating point arithmetic; the values that print specially have constructors of
  their own.
\<close>

datatype number = Num string | NegZero | NaN | PosInf | NegInf

text \<open>
  The values the client is handed as data and as entries of a match list.
  \<open>JUndefined\<close> also stands for a function and for a symbol, which \<open>JSON.stringify\<close>
  treats as it treats \<open>undefined\<close>. An object is the list of the assignments that built
  it, in the order a JSON text or an object literal gives them; \<open>properties\<close> below
  computes the own properties from it. Objects with a cycle, with a \<open>toJSON\<close> method or
  with accessors are not values of this datatype.
\<close>

datatype jsval =
    JUndefined
  | JNull
  | JBool bool
  | JNumber number
  | JBigInt int
  | JString string
  | JArray "jsval list"
  | JObject "(string \<times> jsval) list"

definition number_text :: "number \<Rightarrow> string" where
  "number_text n = (case n of Num t \<Rightarrow> t | NegZero \<Rightarrow> ''0'' | _ \<Rightarrow> ''null'')"

text \<open>
  A property key that is an array index: the canonical decimal form of an integer from
  0 to \<open>2^32 - 2\<close>.
\<close>

definition is_digit :: "char \<Rightarrow> bool" where
  "is_digit c \<longleftrightarrow> 48 \<le> (of_char c :: nat) \<and> (of_char c :: nat) \<le> 57"

definition decimal_value :: "string \<Rightarrow> int" where
  "decimal_value k = foldl (\<lambda>n c. 10 * n + ((of_char c :: int) - 48)) 0 k"

definition array_index :: "string \<Rightarrow> int option" where
  "array_index k =
     (if k \<noteq> [] \<and> list_all is_digit k \<and> (k = ''0'' \<or> hd k \<noteq> CHR ''0'') \<and>
         decimal_value k \<le> 4294967294
      then Some (decimal_value k) else None)"

text \<open>
  The own properties of an object in the order in which \<open>JSON.stringify\<close> and every other
  enumeration visit them (OrdinaryOwnPropertyKeys): array indices first, ascending, then
  the other keys in the order of their first assignment. Assigning to a key that exists
  replaces the value where it stands.
\<close>

fun insert_index :: "int \<Rightarrow> string \<times> 'a \<Rightarrow> (string \<times> 'a) list \<Rightarrow> (string \<times> 'a) list" where
  "insert_index n kv [] = [kv]"
| "insert_index n kv (p # ps) =
     (case array_index (fst p) of
        Some m \<Rightarrow> if m < n then p # insert_index n kv ps else kv # p # ps
      | None \<Rightarrow> kv # p # ps)"

definition set_prop :: "string \<Rightarrow> 'a \<Rightarrow> (string \<times> 'a) list \<Rightarrow> (string \<times> 'a) list" where
  "set_prop k v ps =
     (if k \<in> set (map fst ps) then map (\<lambda>p. if fst p = k then (k, v) else p) ps
      else case array_index k of
             Some n \<Rightarrow> insert_index n (k, v) ps
           | None \<Rightarrow> ps @ [(k, v)])"

definition properties :: "(string \<times> 'a) list \<Rightarrow> (string \<times> 'a) list" where
  "properties kvs = foldl (\<lambda>ps kv. set_prop (fst kv) (snd kv) ps) [] kvs"

definition hex_digit :: "nat \<Rightarrow> char" where
  "hex_digit n = (if n < 10 then char_of (48 + n) else char_of (87 + n))"

text \<open>One character of a string literal, as QuoteJSONString escapes it.\<close>

definition escape_char :: "char \<Rightarrow> string" where
  "escape_char c =
     (if c = CHR 0x08 then [CHR 0x5C, CHR ''b'']
      else if c = CHR 0x09 then [CHR 0x5C, CHR ''t'']
      else if c = CHR 0x0A then [CHR 0x5C, CHR ''n'']
      else if c = CHR 0x0C then [CHR 0x5C, CHR ''f'']
      else if c = CHR 0x0D then [CHR 0x5C, CHR ''r'']
      else if c = CHR 0x22 then [CHR 0x5C, CHR 0x22]
      else if c = CHR 0x5C then [CHR 0x5C, CHR 0x5C]
      else if (of_char c :: nat) < 32
        then [CHR 0x5C, CHR ''u'', CHR ''0'', CHR ''0'',
              hex_digit ((of_char c :: nat) div 16), hex_digit ((of_char c :: nat) mod 16)]
      else [c])"

definition quote_json :: "string \<Rightarrow> string" where
  "quote_json s = CHR 0x22 # concat (map escape_char s) @ [CHR 0x22]"

fun join_commas :: "string list \<Rightarrow> string" where
  "join_commas [] = []"
| "join_commas [x] = x"
| "join_commas (x # y # ys) = x @ CHR '','' # join_commas (y # ys)"

text \<open>The first exception of a list of results, or all their values.\<close>

fun collect :: "(exn + 'a) list \<Rightarrow> exn + 'a list" where
  "collect [] = Inr []"
| "collect (Inl x # rs) = Inl x"
| "collect (Inr v # rs) = (case collect rs of Inl x \<Rightarrow> Inl x | Inr vs \<Rightarrow> Inr (v # vs))"

text \<open>
  An element of an array prints as \<open>null\<close> where \<open>JSON.stringify\<close> has no text for it; a
  property of an object is left out there.
\<close>

definition element_text :: "string option \<Rightarrow> string" where
  "element_text t = (case t of None \<Rightarrow> ''null'' | Some u \<Rightarrow> u)"

definition member_result :: "string \<times> (exn + string option) \<Rightarrow> exn + string \<times> string option" where
  "member_result p = (case snd p of Inl x \<Rightarrow> Inl x | Inr t \<Rightarrow> Inr (fst p, t))"

definition member_text :: "string \<times> string option \<Rightarrow> string option" where
  "member_text p = (case snd p of None \<Rightarrow> None | Some u \<Rightarrow> Some (quote_json (fst p) @ CHR '':'' # u))"

text \<open>
  \<open>JSON.stringify(v)\<close> with one argument: it throws, or it returns \<open>undefined\<close> (\<open>None\<close>)
  or a text.
\<close>

fun JSON_stringify :: "jsval \<Rightarrow> exn + string option" where
  "JSON_stringify JUndefined = Inr None"
| "JSON_stringify JNull = Inr (Some ''null'')"
| "JSON_stringify (JBool b) = Inr (Some (if b then ''true'' else ''false''))"
| "JSON_stringify (JNumber n) = Inr (Some (number_text n))"
| "JSON_stringify (JBigInt i) = Inl TypeError"
| "JSON_stringify (JString s) = Inr (Some (quote_json s))"
| "JSON_stringify (JArray xs) =
     (case collect (map JSON_stringify xs) of
        Inl x \<Rightarrow> Inl x
      | Inr ts \<Rightarrow> Inr (Some (CHR ''['' # join_commas (map element_text ts) @ '']'')))"
| "JSON_stringify (JObject kvs) =
     (case collect (map member_result
                     (properties (map (\<lambda>kv. (fst kv, JSON_stringify (snd kv))) kvs))) of
        Inl x \<Rightarrow> Inl x
      | Inr ms \<Rightarrow> Inr (Some (CHR ''{'' # join_commas (List.map_filter member_text ms) @ ''}'')))"

text \<open>
  Reading the property \<open>k\<close> of a value, for a key that no prototype defines (as \<open>id\<close> and
  \<open>name\<close>): a TypeError on \<open>null\<close> and \<open>undefined\<close>, \<open>undefined\<close> where the value has no
  such property of its own.
\<close>

definition get_prop :: "string \<Rightarrow> jsval \<Rightarrow> exn + jsval" where
  "get_prop k v =
     (case v of
        JUndefined \<Rightarrow> Inl TypeError
      | JNull \<Rightarrow> Inl TypeError
      | JObject kvs \<Rightarrow> Inr (case map_of (properties kvs) k of Some w \<Rightarrow> w | None \<Rightarrow> JUndefined)
      | _ \<Rightarrow> Inr JUndefined)"






subsection \<open>Data\<close>

type_synonym sdp = string
type_synonym candidate = string

text \<open>
  An entry of the match list as the gateway sends it is \<open>{"id": ..., "name": ...}\<close>.
  The client keeps whatever values the response carries.
\<close>

record peer =
  p_id :: string
  p_name :: string

definition peer_json :: "peer \<Rightarrow> jsval" where
  "peer_json p = JObject [(''id'', JString (p_id p)), (''name'', JString (p_name p))]"



text \<open>A property of a response that may be absent, \<open>null\<close> or a value.\<close>

datatype 'a nullable = Absent | Null | Value 'a

text \<open>
  A response body of the API, after \<open>response.json()\<close>. A property that is absent or
  \<open>null\<close> is \<open>None\<close>; for \<open>message\<close>, whose text an error carries, the two are kept
  apart. \<open>r_success\<close> is the truthiness of \<open>success\<close>. The fields carry the prefix \<open>r_\<close>
  to keep them apart from the client's own.
\<close>

record response =
  r_success :: bool
  r_message :: "string nullable"
  r_next_status :: "string option"
  r_id :: "string option"
  r_match_list :: "jsval list option"
  r_type :: "string option"
  r_sdp :: "sdp option"
  r_candidates :: "candidate list option"
  r_peer_id :: "string option"
  r_peer_name :: "string option"

text \<open>The request bodies the client builds, one constructor for each object literal.\<close>

datatype request =
    RegisterReq "string option" string string "string list" string
      \<comment> \<open>action register: id, name, global_ip, friend_list, passphrase\<close>
  | PollReq "string option" "string option" "string option"
      \<comment> \<open>action sendsignal, type polling: id, peer_id, status\<close>
  | OfferReq "string option" "string option" "sdp option" "candidate list"
      \<comment> \<open>action sendsignal, type offer: id, peer_id, sdp, candidates\<close>
  | AnswerReq "string option" "string option" "sdp option" "candidate list"
      \<comment> \<open>action sendsignal, type answer: id, peer_id, sdp, candidates\<close>

datatype event =
    Registered "string option" "jsval list"
  | MatchFound "jsval list"
  | OfferEv "string option" jsval
  | ConnectedEv "string option" jsval
  | Disconnected string
  | ErrorEv exn
  | ResetEv "string option" "string nullable"

text \<open>Calls into the peer-connection engine.\<close>

datatype pc_op =
    NewConnection
  | CreateDataChannel string
  | CreateOffer
  | CreateAnswer
  | SetLocalDescription sdp
  | SetRemoteDescription "sdp option"
  | AddIceCandidate candidate
  | Send "string option"   \<comment> \<open>\<open>send\<close> of the data channel, with its argument (\<open>None\<close> for \<open>undefined\<close>)\<close>

datatype effect =
    ApiCall request
  | EngineCall pc_op
  | Emit event
  | ChannelClose
  | ConnectionClose
  | SetInterval nat
  | ClearInterval
  | ConsoleError exn
  | ConsoleWarn exn

record pc =
  localDescription :: "sdp option"

record dc =
  readyState :: string

text \<open>
  The fields of \<open>Client\<close>. \<open>id'\<close> is \<open>this.id\<close>. \<open>pollingTimer\<close> holds the period of
  the running interval timer. Each entry of \<open>trace\<close> is an effect together with the
  value \<open>_isProcessingSignal\<close> had when the effect happened, which is the value any
  other task sees while that call is outstanding.
\<close>

record client =
  apiUrl :: string
  name :: string
  id' :: "string option"
  globalIp :: string
  friendList :: "string list"
  passphrase :: string
  pollingInterval :: nat
  status :: "string option"
  peerId :: "string option"
  peerName :: jsval
  matchList :: "jsval list"
  isConnected :: bool
  pollingTimer :: "nat option"
  peerConnection :: "pc option"
  dataChannel :: "dc option"
  pendingCandidates :: "candidate list"
  isOfferer :: bool
  isProcessingSignal :: bool
  trace :: "(bool \<times> effect) list"

text \<open>
  How a call ends: it returns a value, it throws, or it never settles (a request that
  is never answered leaves the awaiting method suspended for good).
\<close>

datatype 'a outcome = Returns 'a | Throws exn | Pending

text \<open>
  What the outside answers during one operation: how the API answers each request,
  whether an engine call throws, the descriptions the engine creates, and what the engine
  reports while the client waits for candidates (the gathering-state changes, each with
  the time in milliseconds since the wait began and the state read by the handler, and
  the candidates handed to \<open>onicecandidate\<close>).
\<close>

record env =
  fetch :: "request \<Rightarrow> response outcome"
  engine :: "pc_op \<Rightarrow> exn option"
  offer :: sdp
  answer :: sdp
  gathering :: "(nat \<times> string) list"
  gathered :: "candidate list"

subsection \<open>Control flow\<close>

type_synonym 'a io = "client \<Rightarrow> 'a outcome \<times> client"

definition return_io :: "'a \<Rightarrow> 'a io" where
  "return_io x s = (Returns x, s)"

definition throw_io :: "exn \<Rightarrow> 'a io" where
  "throw_io x s = (Throws x, s)"

definition bind_io :: "'a io \<Rightarrow> ('a \<Rightarrow> 'b io) \<Rightarrow> 'b io" where
  "bind_io m f s =
     (case m s of
        (Returns v, s') \<Rightarrow> f v s'
      | (Throws x, s') \<Rightarrow> (Throws x, s')
      | (Pending, s') \<Rightarrow> (Pending, s'))"

definition modify_io :: "(client \<Rightarrow> client) \<Rightarrow> unit io" where
  "modify_io f s = (Returns (), f s)"

text \<open>\<open>try { m } catch (x) { h x }\<close>: a suspended body never reaches the handler.\<close>

definition catch_io :: "'a io \<Rightarrow> (exn \<Rightarrow> 'a io) \<Rightarrow> 'a io" where
  "catch_io m h s =
     (case m s of
        (Throws x, s') \<Rightarrow> h x s'
      | (Returns v, s') \<Rightarrow> (Returns v, s')
      | (Pending, s') \<Rightarrow> (Pending, s'))"

text \<open>\<open>try { m } finally { f }\<close>, for a \<open>finally\<close> block that only assigns fields.\<close>

definition finally_io :: "'a io \<Rightarrow> (client \<Rightarrow> client) \<Rightarrow> 'a io" where
  "finally_io m f s =
     (case m s of
        (Pending, s') \<Rightarrow> (Pending, s')
      | (r, s') \<Rightarrow> (r, f s'))"

text \<open>Truthiness of a string that may be \<open>null\<close>: the empty string is falsy.\<close>

definition truthy :: "string option \<Rightarrow> bool" where
  "truthy x = (case x of None \<Rightarrow> False | Some v \<Rightarrow> v \<noteq> [])"

subsection \<open>Effects\<close>

definition log_eff :: "effect \<Rightarrow> client \<Rightarrow> client" where
  "log_eff x s = s\<lparr>trace := trace s @ [(isProcessingSignal s, x)]\<rparr>"

text \<open>
  \<open>EventEmitter.emit\<close> hands the payload to every registered listener and catches what a
  listener throws, so it never throws itself. The model records the emission.
\<close>

definition emit :: "event \<Rightarrow> client \<Rightarrow> client" where
  "emit ev s = log_eff (Emit ev) s"

definition apiCall :: "env \<Rightarrow> request \<Rightarrow> response io" where
  "apiCall e req s = (fetch e req, log_eff (ApiCall req) s)"

definition engineCall :: "env \<Rightarrow> pc_op \<Rightarrow> unit io" where
  "engineCall e opn s =
     ((case engine e opn of Some x \<Rightarrow> Throws x | None \<Rightarrow> Returns ()),
      log_eff (EngineCall opn) s)"

text \<open>A method called on \<open>this._peerConnection\<close> throws a TypeError when the field is null.\<close>

definition onPeerConnection :: "'a io \<Rightarrow> 'a io" where
  "onPeerConnection m s = (if peerConnection s = None then (Throws TypeError, s) else m s)"

subsection \<open>The constructor\<close>

record options =
  o_apiUrl :: "string option"
  o_name :: "string option"
  o_id :: "string option"
  o_globalIp :: "string option"
  o_friendList :: "string list option"
  o_passphrase :: "string option"
  o_pollingInterval :: "nat option"

text \<open>The messages of the two errors of the constructor, as UTF-8.\<close>

definition msg_apiUrl_required :: string where
  "msg_apiUrl_required =
     ''apiUrl '' @ [CHR 0xE3, CHR 0x81, CHR 0xAF, CHR 0xE5, CHR 0xBF, CHR 0x85, CHR 0xE9,
       CHR 0xA0, CHR 0x88, CHR 0xE3, CHR 0x81, CHR 0xA7, CHR 0xE3, CHR 0x81, CHR 0x99]"

definition msg_name_required :: string where
  "msg_name_required =
     ''name '' @ [CHR 0xE3, CHR 0x81, CHR 0xAF, CHR 0xE5, CHR 0xBF, CHR 0x85, CHR 0xE9,
       CHR 0xA0, CHR 0x88, CHR 0xE3, CHR 0x81, CHR 0xA7, CHR 0xE3, CHR 0x81, CHR 0x99]"

definition new_Client :: "options option \<Rightarrow> exn + client" where
  "new_Client opts =
     (case opts of
        None \<Rightarrow> Inl (Error msg_apiUrl_required)
      | Some o' \<Rightarrow>
          if \<not> truthy (o_apiUrl o') then Inl (Error msg_apiUrl_required)
          else if \<not> truthy (o_name o') then Inl (Error msg_name_required)
          else Inr \<lparr>
            apiUrl = (case o_apiUrl o' of None \<Rightarrow> [] | Some u \<Rightarrow> u),
            name = (case o_name o' of None \<Rightarrow> [] | Some n \<Rightarrow> n),
            id' = (if truthy (o_id o') then o_id o' else None),
            globalIp = (case o_globalIp o' of None \<Rightarrow> [] | Some g \<Rightarrow> g),
            friendList = (case o_friendList o' of None \<Rightarrow> [] | Some f \<Rightarrow> f),
            passphrase = (case o_passphrase o' of None \<Rightarrow> [] | Some p \<Rightarrow> p),
            pollingInterval =
              (case o_pollingInterval o' of None \<Rightarrow> 2000 | Some n \<Rightarrow> if n = 0 then 2000 else n),
            status = Some ''idle'',
            peerId = None,
            peerName = JNull,
            matchList = [],
            isConnected = False,
            pollingTimer = None,
            peerConnection = None,
            dataChannel = None,
            pendingCandidates = [],
            isOfferer = False,
            isProcessingSignal = False,
            trace = [] \<rparr>)"

subsection \<open>Polling timer\<close>

definition startPolling :: "client \<Rightarrow> client" where
  "startPolling s =
     (if pollingTimer s \<noteq> None then s
      else log_eff (SetInterval (pollingInterval s)) (s\<lparr>pollingTimer := Some (pollingInterval s)\<rparr>))"

definition stopPolling :: "client \<Rightarrow> client" where
  "stopPolling s =
     (if pollingTimer s \<noteq> None then log_eff ClearInterval (s\<lparr>pollingTimer := None\<rparr>)
      else s)"

subsection \<open>Closing the channel and the connection\<close>

definition closeDataChannel :: "client \<Rightarrow> client" where
  "closeDataChannel s =
     (if dataChannel s \<noteq> None then log_eff ChannelClose (s\<lparr>dataChannel := None\<rparr>) else s)"

definition closePeerConnection :: "client \<Rightarrow> client" where
  "closePeerConnection s =
     (if peerConnection s \<noteq> None then log_eff ConnectionClose (s\<lparr>peerConnection := None\<rparr>)
      else s)"

subsection \<open>\<open>register\<close>\<close>

text \<open>
  The message of \<open>new Error(response.message)\<close>: empty for \<open>undefined\<close>, the text \<open>null\<close>
  for \<open>null\<close>.
\<close>

definition error_message :: "string nullable \<Rightarrow> string" where
  "error_message m = (case m of Absent \<Rightarrow> [] | Null \<Rightarrow> ''null'' | Value v \<Rightarrow> v)"

definition sendRegister :: "env \<Rightarrow> response io" where
  "sendRegister e s =
     apiCall e (RegisterReq (id' s) (name s) (globalIp s) (friendList s) (passphrase s)) s"

text \<open>Lines 138 to 157: what \<open>register\<close> does with a successful response.\<close>

definition registered :: "response \<Rightarrow> client \<Rightarrow> client" where
  "registered r s =
     (let s1 = (if truthy (r_id r) then s\<lparr>id' := r_id r\<rparr> else s);
          s2 = s1\<lparr>status := r_next_status r,
                  matchList := (case r_match_list r of None \<Rightarrow> [] | Some ml \<Rightarrow> ml)\<rparr>;
          s3 = emit (Registered (id' s2) (matchList s2)) s2;
          s4 = (if 0 < length (matchList s3) then emit (MatchFound (matchList s3)) s3 else s3)
      in startPolling s4)"

definition register :: "env \<Rightarrow> unit io" where
  "register e =
     catch_io
       (bind_io (sendRegister e)
          (\<lambda>r. if \<not> r_success r then throw_io (Error (error_message (r_message r)))
                else modify_io (registered r)))
       (\<lambda>x s. (Throws x, emit (ErrorEv x) s))"

subsection \<open>\<open>disconnect\<close> and \<open>send\<close>\<close>

text \<open>
  \<open>disconnect\<close> has no \<open>await\<close> and no \<open>throw\<close>; \<open>clearInterval\<close>, the two \<open>close\<close> methods
  and \<open>emit\<close> do not throw.
\<close>

definition disconnect :: "unit io" where
  "disconnect =
     bind_io (modify_io stopPolling) (\<lambda>_.
     bind_io (modify_io closeDataChannel) (\<lambda>_.
     bind_io (modify_io closePeerConnection) (\<lambda>_.
     bind_io (modify_io (\<lambda>s. s\<lparr>status := Some ''disconnected'', isConnected := False,
                               peerId := None, peerName := JNull,
                               isProcessingSignal := False\<rparr>)) (\<lambda>_.
     modify_io (emit (Disconnected ''user''))))))"




subsection \<open>Creating the connection\<close>

text \<open>
  \<open>_createPeerConnection\<close>: the constructor of the engine's connection object may throw;
  after it the pending candidates start empty. The three handlers it installs are
  \<open>onicecandidate\<close> (its candidates are those of \<open>gathered\<close>), \<open>onconnectionstatechange\<close>
  and \<open>ondatachannel\<close> below.
\<close>

definition createPeerConnection :: "env \<Rightarrow> unit io" where
  "createPeerConnection e =
     bind_io (engineCall e NewConnection)
       (\<lambda>_. modify_io (\<lambda>s. s\<lparr>peerConnection := Some \<lparr>localDescription = None\<rparr>,
                               pendingCandidates := []\<rparr>))"

definition setLocalDescription :: "env \<Rightarrow> sdp \<Rightarrow> unit io" where
  "setLocalDescription e d =
     onPeerConnection
       (bind_io (engineCall e (SetLocalDescription d))
          (\<lambda>_. modify_io (\<lambda>s. s\<lparr>peerConnection :=
                   map_option (\<lambda>p. p\<lparr>localDescription := Some d\<rparr>) (peerConnection s)\<rparr>)))"

definition addIceCandidate :: "env \<Rightarrow> candidate \<Rightarrow> unit io" where
  "addIceCandidate e c = onPeerConnection (engineCall e (AddIceCandidate c))"

text \<open>\<open>for (const candidate of cs) await this._peerConnection.addIceCandidate(candidate)\<close>\<close>

fun addIceCandidates :: "env \<Rightarrow> candidate list \<Rightarrow> unit io" where
  "addIceCandidates e [] = return_io ()"
| "addIceCandidates e (c # cs) = bind_io (addIceCandidate e c) (\<lambda>_. addIceCandidates e cs)"

subsection \<open>Waiting for candidates\<close>

text \<open>
  \<open>_waitForIceCandidates\<close> builds a promise: it arms a timer of 1000 ms whose callback
  is \<open>resolve\<close>, and installs a handler for gathering-state changes that, when the state
  it reads is \<open>complete\<close>, clears the timer and calls \<open>resolve\<close>. The record holds what
  matters of the promise: the deadline of the timer while it is armed, and the time at
  which the promise resolved. Calling \<open>resolve\<close> again changes nothing.
\<close>

record waiting =
  deadline :: "nat option"
  resolved :: "nat option"

definition resolve_at :: "nat \<Rightarrow> waiting \<Rightarrow> waiting" where
  "resolve_at t w = (case resolved w of None \<Rightarrow> w\<lparr>resolved := Some t\<rparr> | Some _ \<Rightarrow> w)"

text \<open>The timer's callback runs at its deadline, once, if the timer is still armed.\<close>

definition timers_until :: "nat \<Rightarrow> waiting \<Rightarrow> waiting" where
  "timers_until t w =
     (case deadline w of
        Some d \<Rightarrow> if d \<le> t then resolve_at d (w\<lparr>deadline := None\<rparr>) else w
      | None \<Rightarrow> w)"

definition onicegatheringstatechange :: "nat \<Rightarrow> string \<Rightarrow> waiting \<Rightarrow> waiting" where
  "onicegatheringstatechange t st w =
     (if st = ''complete'' then resolve_at t (w\<lparr>deadline := None\<rparr>) else w)"

text \<open>
  The event loop over the gathering-state changes: before the handler runs at time \<open>t\<close>
  every timer due by \<open>t\<close> has fired; after the last change time goes on, so a timer
  still armed fires.
\<close>

fun run_wait :: "(nat \<times> string) list \<Rightarrow> waiting \<Rightarrow> waiting" where
  "run_wait [] w =
     (case deadline w of Some d \<Rightarrow> resolve_at d (w\<lparr>deadline := None\<rparr>) | None \<Rightarrow> w)"
| "run_wait ((t, st) # evs) w = run_wait evs (onicegatheringstatechange t st (timers_until t w))"

text \<open>The time of the first change that reads \<open>complete\<close>, if there is one.\<close>

fun first_complete :: "(nat \<times> string) list \<Rightarrow> nat option" where
  "first_complete [] = None"
| "first_complete ((t, st) # evs) = (if st = ''complete'' then Some t else first_complete evs)"

text \<open>
  The method returns the time at which the promise settled. Assigning the handler reads
  \<open>this._peerConnection\<close>: on \<open>null\<close> the executor throws and the promise is rejected.
  A promise that is never resolved leaves the caller suspended.
\<close>

definition waitForIceCandidates :: "env \<Rightarrow> nat io" where
  "waitForIceCandidates e s =
     (if peerConnection s = None then (Throws TypeError, s)
      else case resolved (run_wait (gathering e) \<lparr>deadline = Some 1000, resolved = None\<rparr>) of
             Some t \<Rightarrow> (Returns t, s\<lparr>pendingCandidates := pendingCandidates s @ gathered e\<rparr>)
           | None \<Rightarrow> (Pending, s))"

subsection \<open>\<open>connect\<close>\<close>

text \<open>
  The request that publishes the local description. Reading \<open>localDescription\<close> from
  \<open>this._peerConnection\<close> throws when the field is null.
\<close>

definition sendOffer :: "env \<Rightarrow> string \<Rightarrow> response io" where
  "sendOffer e pid s =
     (case peerConnection s of
        None \<Rightarrow> (Throws TypeError, s)
      | Some p \<Rightarrow>
          apiCall e (OfferReq (id' s) (Some pid) (localDescription p) (pendingCandidates s)) s)"

text \<open>
  Lines 179 to 182: \<open>this.matchList.find(p => p.id === peerId)\<close> and, for the entry
  found, \<open>this.peerName = peer.name\<close>.
\<close>

fun find_peer :: "string \<Rightarrow> jsval list \<Rightarrow> exn + jsval option" where
  "find_peer pid [] = Inr None"
| "find_peer pid (p # ps) =
     (case get_prop ''id'' p of
        Inl x \<Rightarrow> Inl x
      | Inr v \<Rightarrow> if v = JString pid then Inr (Some p) else find_peer pid ps)"

definition lookupPeerName :: "string \<Rightarrow> unit io" where
  "lookupPeerName pid s =
     (case find_peer pid (matchList s) of
        Inl x \<Rightarrow> (Throws x, s)
      | Inr None \<Rightarrow> (Returns (), s)
      | Inr (Some p) \<Rightarrow>
          (case get_prop ''name'' p of
             Inl x \<Rightarrow> (Throws x, s)
           | Inr n \<Rightarrow> (Returns (), s\<lparr>peerName := n\<rparr>)))"

definition connect_try :: "env \<Rightarrow> string \<Rightarrow> unit io" where
  "connect_try e pid =
     bind_io (modify_io (\<lambda>s. s\<lparr>peerId := Some pid, isOfferer := True\<rparr>)) (\<lambda>_.
     bind_io (lookupPeerName pid) (\<lambda>_.
     bind_io (createPeerConnection e) (\<lambda>_.
     bind_io (onPeerConnection (engineCall e (CreateDataChannel ''data''))) (\<lambda>_.
     bind_io (modify_io (\<lambda>s. s\<lparr>dataChannel := Some \<lparr>readyState = ''connecting''\<rparr>\<rparr>)) (\<lambda>_.
     bind_io (onPeerConnection (engineCall e CreateOffer)) (\<lambda>_.
     bind_io (setLocalDescription e (offer e)) (\<lambda>_.
     bind_io (waitForIceCandidates e) (\<lambda>_.
     bind_io (sendOffer e pid) (\<lambda>r.
     if \<not> r_success r then throw_io (Error (error_message (r_message r)))
     else modify_io (\<lambda>s. s\<lparr>status := r_next_status r, pendingCandidates := []\<rparr>))))))))))"

definition connect :: "env \<Rightarrow> string \<Rightarrow> unit io" where
  "connect e pid =
     bind_io (modify_io (\<lambda>s. s\<lparr>isProcessingSignal := True\<rparr>)) (\<lambda>_.
     finally_io
       (catch_io (connect_try e pid)
          (\<lambda>x s. (Throws x, emit (ErrorEv x) (log_eff (ConsoleError x) s))))
       (\<lambda>s. s\<lparr>isProcessingSignal := False\<rparr>))"

subsection \<open>Inbound signals\<close>

definition addBundledCandidates :: "env \<Rightarrow> response \<Rightarrow> unit io" where
  "addBundledCandidates e r =
     (case r_candidates r of None \<Rightarrow> return_io () | Some cs \<Rightarrow> addIceCandidates e cs)"

definition sendAnswer :: "env \<Rightarrow> response io" where
  "sendAnswer e s =
     (case peerConnection s of
        None \<Rightarrow> (Throws TypeError, s)
      | Some p \<Rightarrow>
          apiCall e (AnswerReq (id' s) (peerId s) (localDescription p) (pendingCandidates s)) s)"

definition handleOffer_try :: "env \<Rightarrow> response \<Rightarrow> unit io" where
  "handleOffer_try e r =
     bind_io (modify_io (\<lambda>s. s\<lparr>peerId := r_peer_id r,
                 peerName := JString (case r_peer_name r of None \<Rightarrow> [] | Some n \<Rightarrow> n),
                 isOfferer := False\<rparr>)) (\<lambda>_.
     bind_io (modify_io (\<lambda>s. emit (OfferEv (r_peer_id r) (peerName s)) s)) (\<lambda>_.
     bind_io (createPeerConnection e) (\<lambda>_.
     bind_io (onPeerConnection (engineCall e (SetRemoteDescription (r_sdp r)))) (\<lambda>_.
     bind_io (addBundledCandidates e r) (\<lambda>_.
     bind_io (onPeerConnection (engineCall e CreateAnswer)) (\<lambda>_.
     bind_io (setLocalDescription e (answer e)) (\<lambda>_.
     bind_io (waitForIceCandidates e) (\<lambda>_.
     bind_io (sendAnswer e) (\<lambda>_.
     modify_io (\<lambda>s. s\<lparr>pendingCandidates := []\<rparr>))))))))))"

definition handleOffer :: "env \<Rightarrow> response \<Rightarrow> unit io" where
  "handleOffer e r =
     bind_io (modify_io (\<lambda>s. s\<lparr>isProcessingSignal := True\<rparr>)) (\<lambda>_.
     finally_io
       (catch_io (handleOffer_try e r) (\<lambda>x s. (Throws x, log_eff (ConsoleError x) s)))
       (\<lambda>s. s\<lparr>isProcessingSignal := False\<rparr>))"

definition handleAnswer_try :: "env \<Rightarrow> response \<Rightarrow> unit io" where
  "handleAnswer_try e r =
     bind_io (onPeerConnection (engineCall e (SetRemoteDescription (r_sdp r))))
       (\<lambda>_. addBundledCandidates e r)"

definition handleAnswer :: "env \<Rightarrow> response \<Rightarrow> unit io" where
  "handleAnswer e r =
     bind_io (modify_io (\<lambda>s. s\<lparr>isProcessingSignal := True\<rparr>)) (\<lambda>_.
     finally_io
       (catch_io (handleAnswer_try e r) (\<lambda>x s. (Throws x, log_eff (ConsoleError x) s)))
       (\<lambda>s. s\<lparr>isProcessingSignal := False\<rparr>))"

definition handleIce :: "env \<Rightarrow> response \<Rightarrow> unit io" where
  "handleIce e r s =
     (case r_candidates r of
        None \<Rightarrow> return_io () s
      | Some cs \<Rightarrow> if peerConnection s \<noteq> None then addIceCandidates e cs s else return_io () s)"

subsection \<open>Recovery\<close>

text \<open>Lines 589 to 611: what \<open>_handleAutoReconnect\<close> does before it registers again.\<close>

definition forgetSession :: "client \<Rightarrow> client" where
  "forgetSession s =
     (let s1 = closeDataChannel s;
          s2 = closePeerConnection s1;
          s3 = s2\<lparr>id' := None, peerId := None, peerName := JNull, matchList := [],
                  pendingCandidates := [], isOfferer := False, isConnected := False,
                  isProcessingSignal := False\<rparr>
      in stopPolling s3)"

definition handleAutoReconnect :: "env \<Rightarrow> unit io" where
  "handleAutoReconnect e =
     bind_io (modify_io forgetSession) (\<lambda>_.
     catch_io (register e)
       (\<lambda>x s. (Returns (), emit (ErrorEv x) (log_eff (ConsoleError x) s))))"

definition forgetPeer :: "client \<Rightarrow> client" where
  "forgetPeer s =
     (let s1 = closeDataChannel s;
          s2 = closePeerConnection s1
      in s2\<lparr>peerId := None, peerName := JNull, matchList := [], pendingCandidates := [],
            isOfferer := False, isConnected := False, isProcessingSignal := False\<rparr>)"

definition handleRecovery :: "unit io" where
  "handleRecovery = modify_io forgetPeer"

definition resetSession :: "response \<Rightarrow> client \<Rightarrow> client" where
  "resetSession r s =
     (let nextStatus = r_next_status r;
          message = r_message r;
          s1 = closeDataChannel s;
          s2 = closePeerConnection s1;
          s3 = s2\<lparr>peerId := None, peerName := JNull, matchList := [], pendingCandidates := [],
                  isOfferer := False, isProcessingSignal := False\<rparr>;
          s4 = stopPolling s3;
          s5 = s4\<lparr>status := Some ''idle'', id' := None\<rparr>
      in emit (ResetEv nextStatus message) s5)"

definition handleReset :: "response \<Rightarrow> unit io" where
  "handleReset r = modify_io (resetSession r)"

subsection \<open>The polling tick\<close>

text \<open>The message the API gives when it does not know the user, as UTF-8.\<close>

definition msg_user_not_found :: string where
  "msg_user_not_found =
     [CHR 0xE3, CHR 0x83, CHR 0xA6, CHR 0xE3, CHR 0x83, CHR 0xBC, CHR 0xE3, CHR 0x82, CHR 0xB6,
      CHR 0xE3, CHR 0x83, CHR 0xBC, CHR 0xE3, CHR 0x81, CHR 0x8C, CHR 0xE8, CHR 0xA6, CHR 0x8B,
      CHR 0xE3, CHR 0x81, CHR 0xA4, CHR 0xE3, CHR 0x81, CHR 0x8B, CHR 0xE3, CHR 0x82, CHR 0x8A,
      CHR 0xE3, CHR 0x81, CHR 0xBE, CHR 0xE3, CHR 0x81, CHR 0x9B, CHR 0xE3, CHR 0x82, CHR 0x93]"

text \<open>The test of line 325: the response asks for a new registration.\<close>

definition needs_register :: "response \<Rightarrow> bool" where
  "needs_register r \<longleftrightarrow>
     r_next_status r = Some ''register'' \<or> r_message r = Value msg_user_not_found"

text \<open>The test of line 333: the server is back at waiting for an offer while a peer is set
  and no signal is being processed.\<close>

definition recovers :: "response \<Rightarrow> client \<Rightarrow> bool" where
  "recovers r s \<longleftrightarrow>
     r_next_status r = Some ''wait_offer'' \<and> truthy (peerId s) \<and> \<not> isProcessingSignal s"

text \<open>Lines 333 to 336.\<close>

definition poll_recover :: "response \<Rightarrow> unit io" where
  "poll_recover r s = (if recovers r s then handleRecovery s else return_io () s)"

text \<open>Lines 339 to 354.\<close>

text \<open>
  The test of line 350, \<open>JSON.stringify(this.matchList) !== JSON.stringify(response.match_list)\<close>:
  the left operand is printed first, and either call may throw.
\<close>

definition lists_differ :: "jsval list \<Rightarrow> jsval list \<Rightarrow> exn + bool" where
  "lists_differ held received =
     (case JSON_stringify (JArray held) of
        Inl x \<Rightarrow> Inl x
      | Inr a \<Rightarrow>
          (case JSON_stringify (JArray received) of
             Inl x \<Rightarrow> Inl x
           | Inr b \<Rightarrow> Inr (a \<noteq> b)))"

definition updateMatchList :: "response \<Rightarrow> unit io" where
  "updateMatchList r s =
     (case r_match_list r of
        None \<Rightarrow> (Returns (), s)
      | Some ml \<Rightarrow>
          if 0 < length ml then
            (case lists_differ (matchList s) ml of
               Inl x \<Rightarrow> (Throws x, s)
             | Inr d \<Rightarrow>
                 if d then (Returns (), emit (MatchFound ml) (s\<lparr>matchList := ml\<rparr>))
                 else (Returns (), s))
          else (Returns (), s))"

definition poll_route :: "env \<Rightarrow> response \<Rightarrow> unit io" where
  "poll_route e r =
     (if r_type r = Some ''offer'' then handleOffer e r
      else if r_type r = Some ''answer'' then handleAnswer e r
      else if r_type r = Some ''ice'' then handleIce e r
      else updateMatchList r)"

text \<open>Lines 357 to 359.\<close>

definition adoptStatus :: "response \<Rightarrow> client \<Rightarrow> client" where
  "adoptStatus r s = (if status s \<noteq> Some ''connected'' then s\<lparr>status := r_next_status r\<rparr> else s)"

definition poll_adopt :: "response \<Rightarrow> unit io" where
  "poll_adopt r = modify_io (adoptStatus r)"

definition sendPoll :: "env \<Rightarrow> response io" where
  "sendPoll e s = apiCall e (PollReq (id' s) (peerId s) (status s)) s"

text \<open>The state once the polling request has gone out.\<close>

definition polled :: "client \<Rightarrow> client" where
  "polled s = log_eff (ApiCall (PollReq (id' s) (peerId s) (status s))) s"

definition poll_try :: "env \<Rightarrow> unit io" where
  "poll_try e =
     bind_io (sendPoll e)
       (\<lambda>r. if \<not> r_success r
             then (if needs_register r then handleAutoReconnect e else return_io ())
             else bind_io (poll_recover r) (\<lambda>_.
                  bind_io (poll_route e r) (\<lambda>_.
                  poll_adopt r)))"

definition poll :: "env \<Rightarrow> unit io" where
  "poll e = catch_io (poll_try e) (\<lambda>x s. (Returns (), log_eff (ConsoleWarn x) s))"


text \<open>The registration request of \<open>_handleAutoReconnect\<close>: \<open>this.id\<close> has been cleared.\<close>

definition reregister_request :: "client \<Rightarrow> request" where
  "reregister_request s = RegisterReq None (name s) (globalIp s) (friendList s) (passphrase s)"

subsection \<open>Handlers of the connection\<close>

text \<open>
  \<open>_notifyConnected\<close> is started without \<open>await\<close>: its request goes out at once, and the
  rest of the method runs when the request has settled, after the handler that started it
  has ended. Then the answer is dropped, and a failure is logged.
\<close>

definition sendConnected :: "env \<Rightarrow> response io" where
  "sendConnected e s = apiCall e (PollReq (id' s) (peerId s) (Some ''connected'')) s"

definition notifyConnected_settled :: "response outcome \<Rightarrow> client \<Rightarrow> client" where
  "notifyConnected_settled res s = (case res of Throws x \<Rightarrow> log_eff (ConsoleWarn x) s | _ \<Rightarrow> s)"

text \<open>
  The handler of \<open>connectionstatechange\<close>, given the state it reads. It reads the state
  from \<open>this._peerConnection\<close>, so it throws when the field is null.
\<close>

definition onconnectionstatechange :: "env \<Rightarrow> string \<Rightarrow> unit io" where
  "onconnectionstatechange e st s =
     (if peerConnection s = None then (Throws TypeError, s)
      else if st = ''connected'' then
        (let s1 = s\<lparr>isConnected := True, status := Some ''connected''\<rparr>;
             s2 = stopPolling s1;
             (res, s3) = sendConnected e s2;
             s4 = emit (ConnectedEv (peerId s3) (peerName s3)) s3
         in (Returns (), notifyConnected_settled res s4))
      else if st = ''disconnected'' \<or> st = ''failed'' then
        (Returns (), emit (Disconnected st) (s\<lparr>isConnected := False\<rparr>))
      else (Returns (), s))"

text \<open>The handler of \<open>datachannel\<close> (answering side), given the channel of the event.\<close>

definition ondatachannel :: "dc \<Rightarrow> client \<Rightarrow> client" where
  "ondatachannel ch s = s\<lparr>dataChannel := Some ch\<rparr>"

subsection \<open>Example states\<close>

text \<open>
  \<open>alice\<close> is what \<open>new Client({apiUrl: 'https://gas.example/exec', name: 'Alice'})\<close>
  builds; the other states are later moments of her session with the peer \<open>u2\<close>.
\<close>

definition alice_options :: options where
  "alice_options =
     \<lparr>o_apiUrl = Some ''https://gas.example/exec'', o_name = Some ''Alice'', o_id = None,
      o_globalIp = None, o_friendList = None, o_passphrase = None, o_pollingInterval = None\<rparr>"

definition alice :: client where
  "alice =
     \<lparr>apiUrl = ''https://gas.example/exec'', name = ''Alice'', id' = None, globalIp = [],
      friendList = [], passphrase = [], pollingInterval = 2000, status = Some ''idle'',
      peerId = None, peerName = JNull, matchList = [], isConnected = False,
      pollingTimer = None, peerConnection = None, dataChannel = None,
      pendingCandidates = [], isOfferer = False, isProcessingSignal = False, trace = []\<rparr>"

definition bob :: peer where
  "bob = \<lparr>p_id = ''u2'', p_name = ''Bob''\<rparr>"


text \<open>Registered as \<open>u1\<close>, polling, nobody chosen yet.\<close>

definition alice_waiting :: client where
  "alice_waiting =
     alice\<lparr>id' := Some ''u1'', status := Some ''wait_offer'', pollingTimer := Some 2000\<rparr>"

text \<open>In negotiation with \<open>u2\<close>: connection and channel exist, the channel is not open yet.\<close>

definition alice_negotiating :: client where
  "alice_negotiating =
     alice_waiting\<lparr>status := Some ''wait_answer'', peerId := Some ''u2'',
       peerName := JString ''Bob'', matchList := [peer_json bob], isOfferer := True,
       peerConnection := Some \<lparr>localDescription = Some ''v=0 offer''\<rparr>,
       dataChannel := Some \<lparr>readyState = ''connecting''\<rparr>\<rparr>"


text \<open>A response with nothing but \<open>success\<close>.\<close>

definition bare_response :: "bool \<Rightarrow> response" where
  "bare_response ok =
     \<lparr>r_success = ok, r_message = Absent, r_next_status = None, r_id = None, r_match_list = None,
      r_type = None, r_sdp = None, r_candidates = None, r_peer_id = None, r_peer_name = None\<rparr>"

text \<open>A stale frame: success, and the status of a client that waits for an offer.\<close>

definition stale_frame :: response where
  "stale_frame = (bare_response True)\<lparr>r_next_status := Some ''wait_offer''\<rparr>"

text \<open>
  An outside in which every request is answered by \<open>r\<close>, no engine call throws, and
  gathering completes after 480 ms with one candidate.
\<close>

definition answering :: "response \<Rightarrow> env" where
  "answering r =
     \<lparr>fetch = (\<lambda>_. Returns r), engine = (\<lambda>_. None), offer = ''v=0 offer'',
      answer = ''v=0 answer'', gathering = [(120, ''gathering''), (480, ''complete'')],
      gathered = [''candidate:1'']\<rparr>"


text \<open>A failure response that asks for a new registration.\<close>

definition register_frame :: response where
  "register_frame =
     (bare_response False)\<lparr>r_next_status := Some ''register'',
       r_message := Value msg_user_not_found\<rparr>"

text \<open>
  An outside whose API has lost the session and cannot be reached for anything but
  polling: a polling request gets \<open>register_frame\<close>, every other request fails.
\<close>

definition lost_session :: env where
  "lost_session =
     (answering register_frame)\<lparr>fetch :=
        (\<lambda>req. case req of
                 PollReq _ _ _ \<Rightarrow> Returns register_frame
               | _ \<Rightarrow> Throws (FetchError ''Failed to fetch''))\<rparr>"

text \<open>
  An outside whose API has lost the session and accepts a new registration: a polling
  request gets \<open>register_frame\<close>, a registration is answered with the new identifier
  \<open>u7\<close>.
\<close>

definition expired_session :: env where
  "expired_session =
     (answering register_frame)\<lparr>fetch :=
        (\<lambda>req. case req of
                 PollReq _ _ _ \<Rightarrow> Returns register_frame
               | _ \<Rightarrow> Returns (stale_frame\<lparr>r_id := Some ''u7''\<rparr>))\<rparr>"

text \<open>An outside whose API cannot be reached at all.\<close>

definition offline :: env where
  "offline = (answering stale_frame)\<lparr>fetch := (\<lambda>_. Throws (FetchError ''Failed to fetch''))\<rparr>"



subsection \<open>Relating the state before a call to the state after\<close>

fun is_register_call :: "effect \<Rightarrow> bool" where
  "is_register_call (ApiCall (RegisterReq _ _ _ _ _)) = True"
| "is_register_call _ = False"

fun is_reset_event :: "effect \<Rightarrow> bool" where
  "is_reset_event (Emit (ResetEv _ _)) = True"
| "is_reset_event _ = False"

fun is_error_event :: "effect \<Rightarrow> bool" where
  "is_error_event (Emit (ErrorEv _)) = True"
| "is_error_event _ = False"

fun is_timer_effect :: "effect \<Rightarrow> bool" where
  "is_timer_effect (SetInterval _) = True"
| "is_timer_effect ClearInterval = True"
| "is_timer_effect _ = False"

text \<open>The effects of an offer/answer/candidate exchange.\<close>

fun negotiating_effect :: "effect \<Rightarrow> bool" where
  "negotiating_effect (ApiCall (OfferReq _ _ _ _)) = True"
| "negotiating_effect (ApiCall (AnswerReq _ _ _ _)) = True"
| "negotiating_effect (EngineCall _) = True"
| "negotiating_effect (Emit (OfferEv _ _)) = True"
| "negotiating_effect (ConsoleError _) = True"
| "negotiating_effect _ = False"

text \<open>An entry of the trace that is no registration, no timer call and no reset or error
  event.\<close>

definition quiet :: "bool \<times> effect \<Rightarrow> bool" where
  "quiet x \<longleftrightarrow> \<not> is_register_call (snd x) \<and> \<not> is_reset_event (snd x) \<and>
     \<not> is_error_event (snd x) \<and> \<not> is_timer_effect (snd x)"

text \<open>\<open>keeps R m\<close>: whatever the state, running \<open>m\<close> leads to a state related to it by \<open>R\<close>.\<close>

definition keeps :: "(client \<Rightarrow> client \<Rightarrow> bool) \<Rightarrow> 'a io \<Rightarrow> bool" where
  "keeps R m \<longleftrightarrow> (\<forall>s. R s (snd (m s)))"

definition preorder :: "(client \<Rightarrow> client \<Rightarrow> bool) \<Rightarrow> bool" where
  "preorder R \<longleftrightarrow> (\<forall>s. R s s) \<and> (\<forall>a b c. R a b \<longrightarrow> R b c \<longrightarrow> R a c)"

text \<open>The session is the same: identifier, status and timer.\<close>

definition session_kept :: "client \<Rightarrow> client \<Rightarrow> bool" where
  "session_kept s s' \<longleftrightarrow>
     id' s' = id' s \<and> status s' = status s \<and> pollingTimer s' = pollingTimer s"

text \<open>The trace has grown by entries that all satisfy \<open>P\<close>.\<close>

definition extends :: "(bool \<times> effect \<Rightarrow> bool) \<Rightarrow> client \<Rightarrow> client \<Rightarrow> bool" where
  "extends P s s' \<longleftrightarrow> (\<exists>new. trace s' = trace s @ new \<and> list_all P new)"

text \<open>From a state with the flag set: the flag is still set and every new entry of the
  trace was made with the flag set.\<close>

definition flagged :: "client \<Rightarrow> client \<Rightarrow> bool" where
  "flagged s s' \<longleftrightarrow>
     (isProcessingSignal s \<longrightarrow> isProcessingSignal s' \<and> extends fst s s')"

text \<open>An update that leaves the session, the flag and the trace alone.\<close>

definition inert :: "(client \<Rightarrow> client) \<Rightarrow> bool" where
  "inert g \<longleftrightarrow>
     (\<forall>s. id' (g s) = id' s \<and> status (g s) = status s \<and> pollingTimer (g s) = pollingTimer s \<and>
          isProcessingSignal (g s) = isProcessingSignal s \<and> trace (g s) = trace s)"

text \<open>A relation that holds across every step of an exchange.\<close>

definition steady :: "(client \<Rightarrow> client \<Rightarrow> bool) \<Rightarrow> bool" where
  "steady R \<longleftrightarrow>
     preorder R \<and> (\<forall>g s. inert g \<longrightarrow> R s (g s)) \<and>
     (\<forall>s x. negotiating_effect x \<longrightarrow> R s (log_eff x s))"

text \<open>The effects that happened between the state \<open>s\<close> and the later state \<open>s'\<close>.\<close>

definition new_effects :: "client \<Rightarrow> client \<Rightarrow> effect list" where
  "new_effects s s' = map snd (drop (length (trace s)) (trace s'))"

text \<open>An entry of the trace that is not a \<open>reset\<close> event.\<close>

definition calm :: "bool \<times> effect \<Rightarrow> bool" where
  "calm x \<longleftrightarrow> \<not> is_reset_event (snd x)"

text \<open>
  The registration of \<open>_handleAutoReconnect\<close> fails: the request throws, or its response
  has no \<open>success\<close>. (A request that is never answered has not failed.)
\<close>

definition reregistration_fails :: "env \<Rightarrow> client \<Rightarrow> bool" where
  "reregistration_fails e s =
     (case fetch e (reregister_request s) of
        Returns rr \<Rightarrow> \<not> r_success rr
      | Throws _ \<Rightarrow> True
      | Pending \<Rightarrow> False)"

text \<open>The tick takes the path of line 326: its response is a failure that asks for
  registration.\<close>

definition reconnecting :: "env \<Rightarrow> client \<Rightarrow> bool" where
  "reconnecting e s =
     (case fetch e (PollReq (id' s) (peerId s) (status s)) of
        Returns r \<Rightarrow> \<not> r_success r \<and> needs_register r
      | _ \<Rightarrow> False)"

text \<open>The flag is as it was, and every new entry of the trace was made with that value.\<close>

definition flag_same :: "client \<Rightarrow> client \<Rightarrow> bool" where
  "flag_same s s' \<longleftrightarrow> isProcessingSignal s' = isProcessingSignal s \<and>
     (\<exists>new. trace s' = trace s @ new \<and> list_all (\<lambda>x. fst x = isProcessingSignal s) new)"

text \<open>The state once the registration request of \<open>_handleAutoReconnect\<close> has gone out.\<close>

definition reregistering :: "client \<Rightarrow> client" where
  "reregistering s = log_eff (ApiCall (reregister_request s)) (forgetSession s)"



text \<open>Nothing but the flag and the trace has changed.\<close>

definition only_logged :: "client \<Rightarrow> client \<Rightarrow> bool" where
  "only_logged s s' \<longleftrightarrow> (\<exists>t b. s' = s\<lparr>isProcessingSignal := b, trace := t\<rparr>)"


section \<open>Properties\<close>

subsection \<open>\<open>JSON.stringify\<close> tells match lists apart\<close>

























text \<open>What \<open>JSON.stringify\<close> throws is a TypeError.\<close>

lemma collect_Inl: "collect rs = Inl x \<Longrightarrow> Inl x \<in> set rs"
  by (induction rs rule: collect.induct) (auto split: sum.splits)

lemma collect_Inr: "collect rs = Inr vs \<Longrightarrow> rs = map Inr vs"
  by (induction rs arbitrary: vs rule: collect.induct) (auto split: sum.splits)

lemma insert_index_values: "snd ` set (insert_index n kv ps) \<subseteq> insert (snd kv) (snd ` set ps)"
  by (induction ps) (auto split: option.splits)

lemma set_prop_values: "snd ` set (set_prop k v ps) \<subseteq> insert v (snd ` set ps)"
  using insert_index_values [of _ "(k, v)" ps]
  by (auto simp: set_prop_def split: option.splits if_splits)

lemma foldl_set_prop_values:
  "snd ` set (foldl (\<lambda>ps kv. set_prop (fst kv) (snd kv) ps) acc l) \<subseteq> snd ` set acc \<union> snd ` set l"
proof (induction l arbitrary: acc)
  case Nil
  then show ?case by simp
next
  case (Cons a l)
  let ?f = "\<lambda>ps kv. set_prop (fst kv) (snd kv) ps"
  have 1: "snd ` set (foldl ?f (set_prop (fst a) (snd a) acc) l) \<subseteq>
      snd ` set (set_prop (fst a) (snd a) acc) \<union> snd ` set l"
    by (rule Cons)
  have 2: "snd ` set (set_prop (fst a) (snd a) acc) \<subseteq> insert (snd a) (snd ` set acc)"
    by (rule set_prop_values)
  have 3: "snd ` set (a # l) = insert (snd a) (snd ` set l)" by simp
  have 4: "foldl ?f acc (a # l) = foldl ?f (set_prop (fst a) (snd a) acc) l" by simp
  show ?case unfolding 3 4 using 1 2 by blast
qed

lemma properties_values: "snd ` set (properties kvs) \<subseteq> snd ` set kvs"
  using foldl_set_prop_values [of "[]" kvs] by (simp add: properties_def)

lemma member_result_Inl: "member_result p = Inl x \<Longrightarrow> snd p = Inl x"
  by (cases "snd p") (simp_all add: member_result_def)

lemma stringify_array_Inl:
  "JSON_stringify (JArray xs) = Inl x \<Longrightarrow> \<exists>y \<in> set xs. JSON_stringify y = Inl x"
proof -
  assume a: "JSON_stringify (JArray xs) = Inl x"
  have "collect (map JSON_stringify xs) = Inl x"
  proof (cases "collect (map JSON_stringify xs)")
    case (Inl y)
    then show ?thesis using a by simp
  next
    case (Inr ts)
    then show ?thesis using a by simp
  qed
  then have "Inl x \<in> set (map JSON_stringify xs)" by (rule collect_Inl)
  then show ?thesis by auto
qed

lemma stringify_object_Inl:
  "JSON_stringify (JObject kvs) = Inl x \<Longrightarrow> \<exists>kv \<in> set kvs. JSON_stringify (snd kv) = Inl x"
proof -
  assume a: "JSON_stringify (JObject kvs) = Inl x"
  let ?rs = "map (\<lambda>kv. (fst kv, JSON_stringify (snd kv))) kvs"
  have "collect (map member_result (properties ?rs)) = Inl x"
  proof (cases "collect (map member_result (properties ?rs))")
    case (Inl y)
    then show ?thesis using a by simp
  next
    case (Inr ts)
    then show ?thesis using a by simp
  qed
  then have "Inl x \<in> set (map member_result (properties ?rs))" by (rule collect_Inl)
  then obtain p where p: "p \<in> set (properties ?rs)" "member_result p = Inl x" by auto
  have "snd p = Inl x" using p(2) by (rule member_result_Inl)
  then have "Inl x \<in> snd ` set (properties ?rs)" using p(1) by force
  then have "Inl x \<in> snd ` set ?rs" by (rule subsetD [OF properties_values])
  then show ?thesis by force
qed

lemma stringify_throws: "JSON_stringify v = Inl x \<Longrightarrow> x = TypeError"
proof (induction v arbitrary: x rule: JSON_stringify.induct)
  case (7 xs)
  then show ?case using stringify_array_Inl [OF 7(2)] by blast
next
  case (8 kvs)
  then show ?case using stringify_object_Inl [OF 8(2)] by blast
qed simp_all

subsection \<open>The wait for candidates\<close>

lemma resolved_stays:
  "resolved w = Some t \<Longrightarrow> resolved (run_wait evs w) = Some t"
  by (induction evs arbitrary: w)
     (auto simp: resolve_at_def timers_until_def onicegatheringstatechange_def split: option.splits)

lemma first_complete_mem: "first_complete evs = Some tc \<Longrightarrow> tc \<in> fst ` set evs"
  by (induction evs rule: first_complete.induct) (auto split: if_splits)

text \<open>While the timer is armed the promise resolves, and not after the deadline.\<close>

lemma run_wait_armed:
  "deadline w = Some d \<Longrightarrow> resolved w = None \<Longrightarrow>
   \<exists>t. resolved (run_wait evs w) = Some t \<and> t \<le> d"
proof (induction evs arbitrary: w)
  case Nil
  then show ?case by (simp add: resolve_at_def)
next
  case (Cons ev evs)
  obtain t st where ev: "ev = (t, st)" by (cases ev)
  show ?case
  proof (cases "d \<le> t \<or> st = ''complete''")
    case True
    then have "\<exists>u. resolved (onicegatheringstatechange t st (timers_until t w)) = Some u \<and> u \<le> d"
      using Cons.prems
      by (auto simp: resolve_at_def timers_until_def onicegatheringstatechange_def)
    then show ?thesis using ev resolved_stays by fastforce
  next
    case False
    then have "onicegatheringstatechange t st (timers_until t w) = w"
      using Cons.prems by (simp add: timers_until_def onicegatheringstatechange_def)
    then show ?thesis using ev Cons by simp
  qed
qed

text \<open>With the changes in the order of their times, the promise resolves at the earlier of
  the first \<open>complete\<close> and the deadline.\<close>

lemma run_wait_sorted:
  "deadline w = Some d \<Longrightarrow> resolved w = None \<Longrightarrow> sorted (map fst evs) \<Longrightarrow>
   resolved (run_wait evs w) =
     Some (case first_complete evs of None \<Rightarrow> d | Some tc \<Rightarrow> min tc d)"
proof (induction evs arbitrary: w)
  case Nil
  then show ?case by (simp add: resolve_at_def)
next
  case (Cons ev evs)
  obtain t st where ev: "ev = (t, st)" by (cases ev)
  show ?case
  proof (cases "st = ''complete''")
    case True
    then have "resolved (onicegatheringstatechange t st (timers_until t w)) = Some (min t d)"
      using Cons.prems
      by (auto simp: resolve_at_def timers_until_def onicegatheringstatechange_def min_def)
    then show ?thesis using ev True resolved_stays by simp
  next
    case notc: False
    show ?thesis
    proof (cases "d \<le> t")
      case True
      then have "resolved (onicegatheringstatechange t st (timers_until t w)) = Some d"
        using Cons.prems notc
        by (auto simp: resolve_at_def timers_until_def onicegatheringstatechange_def)
      then have r: "resolved (run_wait (ev # evs) w) = Some d"
        using ev resolved_stays by simp
      have "\<forall>x \<in> set evs. d \<le> fst x" using Cons.prems(3) ev True by auto
      then have "case first_complete evs of None \<Rightarrow> True | Some tc \<Rightarrow> d \<le> tc"
        by (auto split: option.splits dest!: first_complete_mem)
      then show ?thesis using r ev notc
        by (auto simp: min_def split: option.splits)
    next
      case False
      then have "onicegatheringstatechange t st (timers_until t w) = w"
        using Cons.prems notc by (simp add: timers_until_def onicegatheringstatechange_def)
      then show ?thesis using ev Cons notc by simp
    qed
  qed
qed

subsection \<open>The constructor and \<open>disconnect\<close>\<close>

lemma new_Client_alice: "new_Client (Some alice_options) = Inr alice"
  by (simp add: new_Client_def alice_options_def alice_def truthy_def)

lemma disconnect_run:
  "disconnect s =
     (Returns (),
      emit (Disconnected ''user'')
        ((closePeerConnection (closeDataChannel (stopPolling s)))
           \<lparr>status := Some ''disconnected'', isConnected := False, peerId := None,
            peerName := JNull, isProcessingSignal := False\<rparr>))"
  by (simp add: disconnect_def bind_io_def modify_io_def)

lemma disconnect_fields:
  "pollingTimer (snd (disconnect s)) = None" "dataChannel (snd (disconnect s)) = None"
  "peerConnection (snd (disconnect s)) = None"
  "status (snd (disconnect s)) = Some ''disconnected''"
  "\<not> isConnected (snd (disconnect s))" "peerId (snd (disconnect s)) = None"
  "peerName (snd (disconnect s)) = JNull" "\<not> isProcessingSignal (snd (disconnect s))"
  by (simp_all add: disconnect_run stopPolling_def closeDataChannel_def closePeerConnection_def
      emit_def log_eff_def)

text \<open>On a client that is already disconnected, \<open>disconnect\<close> only emits.\<close>

lemma disconnect_settled:
  assumes "pollingTimer s = None" "dataChannel s = None" "peerConnection s = None"
    "status s = Some ''disconnected''" "\<not> isConnected s" "peerId s = None"
    "peerName s = JNull" "\<not> isProcessingSignal s"
  shows "snd (disconnect s) = s\<lparr>trace := trace s @ [(False, Emit (Disconnected ''user''))]\<rparr>"
  using assms
  by (simp add: disconnect_run stopPolling_def closeDataChannel_def closePeerConnection_def
      emit_def log_eff_def)

text \<open>What one call of \<open>disconnect\<close> does, from any state.\<close>

lemma disconnect_trace:
  "trace (snd (disconnect s)) =
     trace s @
     (if pollingTimer s \<noteq> None then [(isProcessingSignal s, ClearInterval)] else []) @
     (if dataChannel s \<noteq> None then [(isProcessingSignal s, ChannelClose)] else []) @
     (if peerConnection s \<noteq> None then [(isProcessingSignal s, ConnectionClose)] else []) @
     [(False, Emit (Disconnected ''user''))]"
  by (simp add: disconnect_run stopPolling_def closeDataChannel_def closePeerConnection_def
      emit_def log_eff_def)

subsection \<open>Steps that keep a relation\<close>

lemma preorder_session_kept: "preorder session_kept"
  by (simp add: preorder_def session_kept_def)

lemma preorder_extends: "preorder (extends P)"
  by (auto simp: preorder_def extends_def)

lemma preorder_flagged: "preorder flagged"
  by (auto simp: preorder_def flagged_def extends_def)

lemma steady_session_kept: "steady session_kept"
  by (simp add: steady_def preorder_session_kept)
     (simp add: session_kept_def inert_def log_eff_def)

lemma steady_extends:
  "(\<And>b x. negotiating_effect x \<Longrightarrow> P (b, x)) \<Longrightarrow> steady (extends P)"
  by (simp add: steady_def preorder_extends)
     (simp add: extends_def inert_def log_eff_def)

lemma steady_flagged: "steady flagged"
  by (simp add: steady_def preorder_flagged)
     (simp add: flagged_def extends_def inert_def log_eff_def)

lemma steady_preorder: "steady R \<Longrightarrow> preorder R"
  by (simp add: steady_def)

lemma keeps_return: "preorder R \<Longrightarrow> keeps R (return_io x)"
  by (simp add: keeps_def return_io_def preorder_def)

lemma keeps_throw: "preorder R \<Longrightarrow> keeps R (throw_io x)"
  by (simp add: keeps_def throw_io_def preorder_def)

lemma keeps_bind:
  "preorder R \<Longrightarrow> keeps R m \<Longrightarrow> (\<And>v. keeps R (f v)) \<Longrightarrow> keeps R (bind_io m f)"
  unfolding keeps_def preorder_def bind_io_def
  by (auto split: prod.splits outcome.splits) (metis snd_conv)+

lemma keeps_catch:
  "preorder R \<Longrightarrow> keeps R m \<Longrightarrow> (\<And>x. keeps R (h x)) \<Longrightarrow> keeps R (catch_io m h)"
  unfolding keeps_def preorder_def catch_io_def
  by (auto split: prod.splits outcome.splits) (metis snd_conv)+

lemma keeps_finally:
  "preorder R \<Longrightarrow> keeps R m \<Longrightarrow> (\<And>s. R s (f s)) \<Longrightarrow> keeps R (finally_io m f)"
  unfolding keeps_def preorder_def finally_io_def
  by (auto split: prod.splits outcome.splits) (metis snd_conv)+

lemma keeps_modify: "(\<And>s. R s (f s)) \<Longrightarrow> keeps R (modify_io f)"
  by (simp add: keeps_def modify_io_def)

lemma keeps_onPeerConnection: "preorder R \<Longrightarrow> keeps R m \<Longrightarrow> keeps R (onPeerConnection m)"
  by (simp add: keeps_def onPeerConnection_def preorder_def)

lemma keeps_modify_inert: "steady R \<Longrightarrow> inert g \<Longrightarrow> keeps R (modify_io g)"
  by (simp add: keeps_def modify_io_def steady_def)

lemma keeps_engineCall: "steady R \<Longrightarrow> keeps R (engineCall e opn)"
  by (simp add: keeps_def engineCall_def steady_def)

lemma keeps_sendOffer: "steady R \<Longrightarrow> keeps R (sendOffer e pid)"
  by (simp add: keeps_def sendOffer_def apiCall_def steady_def preorder_def split: option.splits)

lemma keeps_sendAnswer: "steady R \<Longrightarrow> keeps R (sendAnswer e)"
  by (simp add: keeps_def sendAnswer_def apiCall_def steady_def preorder_def split: option.splits)

lemma keeps_waitForIceCandidates: "steady R \<Longrightarrow> keeps R (waitForIceCandidates e)"
proof -
  assume r: "steady R"
  have "inert (\<lambda>s. s\<lparr>pendingCandidates := pendingCandidates s @ gathered e\<rparr>)"
    by (simp add: inert_def)
  then have "R s (s\<lparr>pendingCandidates := pendingCandidates s @ gathered e\<rparr>)" for s
    using r unfolding steady_def by blast
  then show ?thesis
    using r by (simp add: keeps_def waitForIceCandidates_def steady_def preorder_def
        split: option.splits)
qed

lemma keeps_createPeerConnection: "steady R \<Longrightarrow> keeps R (createPeerConnection e)"
  unfolding createPeerConnection_def
  by (intro keeps_bind keeps_modify_inert keeps_engineCall steady_preorder)
     (simp_all add: inert_def)

lemma keeps_setLocalDescription: "steady R \<Longrightarrow> keeps R (setLocalDescription e d)"
  unfolding setLocalDescription_def
  by (intro keeps_onPeerConnection keeps_bind keeps_modify_inert keeps_engineCall steady_preorder)
     (simp_all add: inert_def)

lemma keeps_addIceCandidates: "steady R \<Longrightarrow> keeps R (addIceCandidates e cs)"
  by (induction cs)
     (simp_all add: keeps_return keeps_bind keeps_onPeerConnection keeps_engineCall
        steady_preorder addIceCandidate_def)

lemma keeps_addBundledCandidates: "steady R \<Longrightarrow> keeps R (addBundledCandidates e r)"
  unfolding addBundledCandidates_def
  by (simp add: keeps_return keeps_addIceCandidates steady_preorder split: option.splits)

lemma keeps_handleIce: "steady R \<Longrightarrow> keeps R (handleIce e r)"
  using keeps_addIceCandidates [of R e] keeps_return [of R "()"]
  by (auto simp: keeps_def handleIce_def steady_def split: option.splits)

lemma keeps_emit_offer:
  "steady R \<Longrightarrow> keeps R (modify_io (\<lambda>s. emit (OfferEv a (f s)) s))"
  by (simp add: keeps_def modify_io_def emit_def steady_def)

lemmas keeps_steps =
  keeps_bind keeps_onPeerConnection keeps_modify_inert keeps_engineCall keeps_sendOffer
  keeps_sendAnswer keeps_waitForIceCandidates keeps_createPeerConnection
  keeps_setLocalDescription keeps_addBundledCandidates keeps_emit_offer keeps_throw
  steady_preorder

lemma keeps_handleAnswer_try: "steady R \<Longrightarrow> keeps R (handleAnswer_try e r)"
  unfolding handleAnswer_try_def by (intro keeps_steps)

lemma keeps_handleOffer_try: "steady R \<Longrightarrow> keeps R (handleOffer_try e r)"
  unfolding handleOffer_try_def by (intro keeps_steps) (simp_all add: inert_def)



lemma keeps_if:
  "(c \<Longrightarrow> keeps R m) \<Longrightarrow> (\<not> c \<Longrightarrow> keeps R n) \<Longrightarrow> keeps R (if c then m else n)"
  by simp

lemma keeps_lookupPeerName: "steady R \<Longrightarrow> keeps R (lookupPeerName pid)"
proof -
  assume r: "steady R"
  have "inert (\<lambda>s. s\<lparr>peerName := n\<rparr>)" for n
    by (simp add: inert_def)
  then have "R s (s\<lparr>peerName := n\<rparr>)" for s n
    using r unfolding steady_def by blast
  then show ?thesis
    using r by (simp add: keeps_def lookupPeerName_def steady_def preorder_def
        split: sum.splits option.splits)
qed

lemma keeps_connect_try:
  assumes "steady R" and "\<And>s x. R s (s\<lparr>status := x, pendingCandidates := []\<rparr>)"
  shows "keeps R (connect_try e pid)"
  unfolding connect_try_def
  by (intro keeps_steps keeps_lookupPeerName keeps_modify keeps_if assms)
     (simp_all add: inert_def split: option.splits)

lemma flagged_connect_try: "keeps flagged (connect_try e pid)"
  by (rule keeps_connect_try [OF steady_flagged]) (simp add: flagged_def extends_def)

text \<open>The three guarded operations: flag set on entry, cleared in \<open>finally\<close>.\<close>

lemma guarded_flag:
  assumes m: "keeps flagged m" and h: "\<And>x s. flagged s (h x s)"
  defines "g \<equiv> bind_io (modify_io (\<lambda>s. s\<lparr>isProcessingSignal := True\<rparr>)) (\<lambda>_.
             finally_io (catch_io m (\<lambda>x s. (Throws x, h x s)))
               (\<lambda>s. s\<lparr>isProcessingSignal := False\<rparr>))"
  shows "(\<exists>new. trace (snd (g s)) = trace s @ new \<and> list_all fst new) \<and>
         (isProcessingSignal (snd (g s)) \<longleftrightarrow> fst (g s) = Pending)"
proof -
  let ?s0 = "s\<lparr>isProcessingSignal := True\<rparr>"
  obtain res s1 where ms: "m ?s0 = (res, s1)" by (cases "m ?s0")
  have f1: "flagged ?s0 s1" using m ms unfolding keeps_def by (metis snd_conv)
  then have s1: "isProcessingSignal s1" "\<exists>new. trace s1 = trace s @ new \<and> list_all fst new"
    by (auto simp: flagged_def extends_def)
  show ?thesis
  proof (cases res)
    case (Returns v)
    then show ?thesis using ms s1
      by (simp add: g_def bind_io_def modify_io_def finally_io_def catch_io_def)
  next
    case (Throws x)
    have "flagged s1 (h x s1)" by (rule h)
    then have "\<exists>new. trace (h x s1) = trace s @ new \<and> list_all fst new"
      using s1 by (auto simp: flagged_def extends_def)
    then show ?thesis using ms Throws
      by (simp add: g_def bind_io_def modify_io_def finally_io_def catch_io_def)
  next
    case Pending
    then show ?thesis using ms s1
      by (simp add: g_def bind_io_def modify_io_def finally_io_def catch_io_def)
  qed
qed

lemma flagged_log: "flagged s (log_eff x s)"
  by (simp add: flagged_def extends_def log_eff_def)

lemma flagged_log2: "flagged s (emit ev (log_eff x s))"
  by (simp add: flagged_def extends_def log_eff_def emit_def)

lemma connect_flag:
  "(\<exists>new. trace (snd (connect e pid s)) = trace s @ new \<and> list_all fst new) \<and>
   (isProcessingSignal (snd (connect e pid s)) \<longleftrightarrow> fst (connect e pid s) = Pending)"
  unfolding connect_def by (rule guarded_flag [OF flagged_connect_try flagged_log2])

lemma handleOffer_flag:
  "(\<exists>new. trace (snd (handleOffer e r s)) = trace s @ new \<and> list_all fst new) \<and>
   (isProcessingSignal (snd (handleOffer e r s)) \<longleftrightarrow> fst (handleOffer e r s) = Pending)"
  unfolding handleOffer_def
  by (rule guarded_flag [OF keeps_handleOffer_try [OF steady_flagged] flagged_log])

lemma handleAnswer_flag:
  "(\<exists>new. trace (snd (handleAnswer e r s)) = trace s @ new \<and> list_all fst new) \<and>
   (isProcessingSignal (snd (handleAnswer e r s)) \<longleftrightarrow> fst (handleAnswer e r s) = Pending)"
  unfolding handleAnswer_def
  by (rule guarded_flag [OF keeps_handleAnswer_try [OF steady_flagged] flagged_log])



lemma steady_flag_same: "steady flag_same"
  unfolding steady_def preorder_def
  by (auto simp: flag_same_def inert_def log_eff_def)

lemma handleIce_flag:
  "isProcessingSignal (snd (handleIce e r s)) = isProcessingSignal s \<and>
   (\<exists>new. trace (snd (handleIce e r s)) = trace s @ new \<and>
          list_all (\<lambda>x. fst x = isProcessingSignal s) new)"
  using keeps_handleIce [OF steady_flag_same, of e r]
  by (simp add: keeps_def flag_same_def)

lemma disconnect_flag:
  "\<not> isProcessingSignal (snd (disconnect s)) \<and>
   (\<exists>new. trace (snd (disconnect s)) = trace s @ new \<and>
          list_all (\<lambda>x. fst x = (isProcessingSignal s \<and> snd x \<noteq> Emit (Disconnected ''user''))) new)"
  by (simp add: disconnect_fields disconnect_trace)


subsection \<open>Shape of a tick\<close>


lemma poll_unanswered:
  "fetch e (PollReq (id' s) (peerId s) (status s)) = Pending \<Longrightarrow> poll e s = (Pending, polled s)"
  by (simp add: poll_def poll_try_def sendPoll_def apiCall_def catch_io_def bind_io_def polled_def)

lemma poll_fetch_throws:
  "fetch e (PollReq (id' s) (peerId s) (status s)) = Throws x \<Longrightarrow>
   poll e s = (Returns (), log_eff (ConsoleWarn x) (polled s))"
  by (simp add: poll_def poll_try_def sendPoll_def apiCall_def catch_io_def bind_io_def polled_def)

lemma handleAutoReconnect_never_throws: "fst (handleAutoReconnect e s) \<noteq> Throws x"
  by (simp add: handleAutoReconnect_def bind_io_def modify_io_def catch_io_def
      split: prod.splits outcome.splits)

lemma poll_failure:
  assumes "fetch e (PollReq (id' s) (peerId s) (status s)) = Returns r" "\<not> r_success r"
  shows "poll e s = (if needs_register r then handleAutoReconnect e (polled s)
                     else (Returns (), polled s))"
proof (cases "needs_register r")
  case True
  obtain res s' where h: "handleAutoReconnect e (polled s) = (res, s')"
    by (cases "handleAutoReconnect e (polled s)")
  then have "res \<noteq> Throws x" for x
    using handleAutoReconnect_never_throws [of e "polled s" x] by simp
  then show ?thesis using assms True h
    by (cases res)
       (auto simp: poll_def poll_try_def sendPoll_def apiCall_def catch_io_def bind_io_def
          polled_def)
next
  case False
  then show ?thesis using assms
    by (simp add: poll_def poll_try_def sendPoll_def apiCall_def catch_io_def bind_io_def
        polled_def return_io_def)
qed

lemma poll_recover_Returns: "fst (poll_recover r s) = Returns ()"
  by (simp add: poll_recover_def handleRecovery_def modify_io_def return_io_def)

lemma poll_success:
  assumes "fetch e (PollReq (id' s) (peerId s) (status s)) = Returns r" "r_success r"
  shows "poll e s =
     (case poll_route e r (snd (poll_recover r (polled s))) of
        (Returns _, s2) \<Rightarrow> (Returns (), adoptStatus r s2)
      | (Throws x, s2) \<Rightarrow> (Returns (), log_eff (ConsoleWarn x) s2)
      | (Pending, s2) \<Rightarrow> (Pending, s2))"
proof -
  obtain s1 where s1: "poll_recover r (polled s) = (Returns (), s1)"
    using poll_recover_Returns [of r "polled s"] by (cases "poll_recover r (polled s)") simp
  then show ?thesis using assms
    by (simp add: poll_def poll_try_def sendPoll_def apiCall_def catch_io_def bind_io_def
        polled_def [symmetric] poll_adopt_def modify_io_def split: prod.splits outcome.splits)
qed


subsection \<open>Recovery and routing\<close>

lemma keeps_guarded:
  assumes "steady R" "\<And>s b. R s (s\<lparr>isProcessingSignal := b\<rparr>)" "keeps R m"
  shows "keeps R (bind_io (modify_io (\<lambda>s. s\<lparr>isProcessingSignal := True\<rparr>)) (\<lambda>_.
           finally_io (catch_io m (\<lambda>x s. (Throws x, log_eff (ConsoleError x) s)))
             (\<lambda>s. s\<lparr>isProcessingSignal := False\<rparr>)))"
proof -
  have "keeps R (\<lambda>s. (Throws x, log_eff (ConsoleError x) s))" for x :: exn
    using assms(1) by (simp add: keeps_def steady_def)
  then show ?thesis
    by (intro keeps_bind keeps_modify keeps_finally keeps_catch steady_preorder assms)
qed

lemma session_kept_flag: "session_kept s (s\<lparr>isProcessingSignal := b\<rparr>)"
  by (simp add: session_kept_def)

lemma extends_flag: "extends P s (s\<lparr>isProcessingSignal := b\<rparr>)"
  by (simp add: extends_def)

text \<open>The update of the match list changes the list and the trace, by one event at most.\<close>

lemma updateMatchList_cases:
  "updateMatchList r s = (Returns (), s) \<or> updateMatchList r s = (Throws TypeError, s) \<or>
   (\<exists>ml. r_match_list r = Some ml \<and> ml \<noteq> [] \<and>
      updateMatchList r s = (Returns (), emit (MatchFound ml) (s\<lparr>matchList := ml\<rparr>)))"
proof -
  have "x = TypeError" if "JSON_stringify v = Inl x" for v x
    using that by (rule stringify_throws)
  then show ?thesis
    by (auto simp: updateMatchList_def lists_differ_def simp del: JSON_stringify.simps
        split: option.splits sum.splits)
qed

lemma keeps_updateMatchList:
  assumes "preorder R" "\<And>s ml. R s (emit (MatchFound ml) (s\<lparr>matchList := ml\<rparr>))"
  shows "keeps R (updateMatchList r)"
proof -
  have "R s (snd (updateMatchList r s))" for s
    using updateMatchList_cases [of r s] assms unfolding preorder_def by (metis snd_conv)
  then show ?thesis by (simp add: keeps_def)
qed

lemma session_kept_route: "keeps session_kept (poll_route e r)"
  unfolding poll_route_def handleOffer_def handleAnswer_def
  by (intro keeps_if keeps_guarded keeps_handleOffer_try keeps_handleAnswer_try keeps_handleIce
        keeps_updateMatchList steady_session_kept session_kept_flag preorder_session_kept)
     (simp add: session_kept_def emit_def log_eff_def)

lemma session_kept_recover: "keeps session_kept (poll_recover r)"
  by (simp add: keeps_def poll_recover_def handleRecovery_def modify_io_def return_io_def
      forgetPeer_def closeDataChannel_def closePeerConnection_def log_eff_def session_kept_def)

lemma extends_close: 
  assumes "\<And>x. quiet x \<Longrightarrow> P x"
  shows "extends P s (closePeerConnection (closeDataChannel s))"
proof -
  have "P (b, ChannelClose)" "P (b, ConnectionClose)" for b
    by (rule assms, simp add: quiet_def)+
  then show ?thesis
    by (simp add: extends_def closeDataChannel_def closePeerConnection_def log_eff_def)
qed

lemma extends_recover:
  assumes "\<And>x. quiet x \<Longrightarrow> P x"
  shows "keeps (extends P) (poll_recover r)"
  using extends_close [of P, OF assms]
  by (simp add: keeps_def poll_recover_def handleRecovery_def modify_io_def return_io_def
      forgetPeer_def extends_def Let_def)

lemma negotiating_quiet: "negotiating_effect x \<Longrightarrow> quiet (b, x)"
  by (cases x rule: negotiating_effect.cases) (simp_all add: quiet_def)

lemma extends_route:
  assumes "\<And>x. quiet x \<Longrightarrow> P x"
  shows "keeps (extends P) (poll_route e r)"
proof -
  have st: "steady (extends P)"
    by (rule steady_extends) (simp add: assms negotiating_quiet)
  have "P (b, Emit (MatchFound ml))" for b ml
    by (rule assms) (simp add: quiet_def)
  then have "extends P s (emit (MatchFound ml) (s\<lparr>matchList := ml\<rparr>))" for s ml
    by (simp add: extends_def emit_def log_eff_def)
  then show ?thesis
    unfolding poll_route_def handleOffer_def handleAnswer_def
    by (intro keeps_if keeps_guarded keeps_handleOffer_try keeps_handleAnswer_try
          keeps_handleIce keeps_updateMatchList st extends_flag preorder_extends)
qed

subsection \<open>Automatic registration and the status\<close>


lemma forgetSession_fields:
  "id' (forgetSession s) = None" "status (forgetSession s) = status s"
  "pollingTimer (forgetSession s) = None" "\<not> isProcessingSignal (forgetSession s)"
  "name (forgetSession s) = name s" "globalIp (forgetSession s) = globalIp s"
  "friendList (forgetSession s) = friendList s" "passphrase (forgetSession s) = passphrase s"
  "pollingInterval (forgetSession s) = pollingInterval s"
  "peerConnection (forgetSession s) = None" "dataChannel (forgetSession s) = None"
  "peerId (forgetSession s) = None" "peerName (forgetSession s) = JNull"
  "matchList (forgetSession s) = []" "pendingCandidates (forgetSession s) = []"
  by (simp_all add: forgetSession_def stopPolling_def closeDataChannel_def
      closePeerConnection_def log_eff_def Let_def)

lemma registered_fields:
  "status (registered rr s) = r_next_status rr"
  "id' (registered rr s) = (if truthy (r_id rr) then r_id rr else id' s)"
  "pollingTimer (registered rr s) =
     (case pollingTimer s of None \<Rightarrow> Some (pollingInterval s) | Some t \<Rightarrow> Some t)"
  by (simp_all add: registered_def startPolling_def emit_def log_eff_def Let_def
      split: option.splits)


lemma handleAutoReconnect_result:
  "handleAutoReconnect e s =
     (case fetch e (reregister_request s) of
        Returns rr \<Rightarrow>
          if r_success rr then (Returns (), registered rr (reregistering s))
          else (Returns (),
                emit (ErrorEv (Error (error_message (r_message rr))))
                  (log_eff (ConsoleError (Error (error_message (r_message rr))))
                     (emit (ErrorEv (Error (error_message (r_message rr)))) (reregistering s))))
      | Throws x \<Rightarrow>
          (Returns (),
           emit (ErrorEv x) (log_eff (ConsoleError x) (emit (ErrorEv x) (reregistering s))))
      | Pending \<Rightarrow> (Pending, reregistering s))"
  by (simp add: handleAutoReconnect_def register_def sendRegister_def apiCall_def bind_io_def
      modify_io_def catch_io_def throw_io_def reregister_request_def reregistering_def
      forgetSession_fields split: outcome.splits)

lemma reregistering_fields:
  "status (reregistering s) = status s" "id' (reregistering s) = None"
  "pollingTimer (reregistering s) = None" "pollingInterval (reregistering s) = pollingInterval s"
  by (simp_all add: reregistering_def log_eff_def forgetSession_fields)

lemma emit_fields:
  "status (emit ev s) = status s" "id' (emit ev s) = id' s"
  "pollingTimer (emit ev s) = pollingTimer s"
  "status (log_eff x s) = status s" "id' (log_eff x s) = id' s"
  "pollingTimer (log_eff x s) = pollingTimer s"
  by (simp_all add: emit_def log_eff_def)

lemma status_after_reconnect:
  "status (snd (handleAutoReconnect e s)) =
     (case fetch e (reregister_request s) of
        Returns rr \<Rightarrow> if r_success rr then r_next_status rr else status s
      | _ \<Rightarrow> status s)"
  by (simp add: handleAutoReconnect_result registered_fields reregistering_fields emit_fields
      split: outcome.splits)

lemma polled_fields:
  "status (polled s) = status s" "id' (polled s) = id' s"
  "pollingTimer (polled s) = pollingTimer s" "name (polled s) = name s"
  "globalIp (polled s) = globalIp s" "friendList (polled s) = friendList s"
  "passphrase (polled s) = passphrase s" "pollingInterval (polled s) = pollingInterval s"
  "peerId (polled s) = peerId s" "isProcessingSignal (polled s) = isProcessingSignal s"
  "trace (polled s) = trace s @ [(isProcessingSignal s, ApiCall (PollReq (id' s) (peerId s) (status s)))]"
  by (simp_all add: polled_def log_eff_def)

lemma reregister_request_polled: "reregister_request (polled s) = reregister_request s"
  by (simp add: reregister_request_def polled_fields)




subsection \<open>Ticks with a successful response\<close>

lemma new_effects_append: "trace s' = trace s @ new \<Longrightarrow> new_effects s s' = map snd new"
  by (simp add: new_effects_def)

lemma extends_trans: "extends P a b \<Longrightarrow> extends P b c \<Longrightarrow> extends P a c"
  using preorder_extends [of P] unfolding preorder_def by blast

lemma extends_log: "P (isProcessingSignal s, x) \<Longrightarrow> extends P s (log_eff x s)"
  by (simp add: extends_def log_eff_def)

lemma extends_quiet_effects:
  assumes "extends quiet s s'" and "x \<in> set (new_effects s s')"
  shows "\<not> is_register_call x \<and> \<not> is_reset_event x \<and> \<not> is_error_event x \<and> \<not> is_timer_effect x"
proof -
  obtain new where n: "trace s' = trace s @ new" "list_all quiet new"
    using assms(1) by (auto simp: extends_def)
  then have "x \<in> snd ` set new" using assms(2) by (simp add: new_effects_append)
  then show ?thesis using n(2) by (auto simp: list_all_iff quiet_def)
qed

text \<open>A tick whose response has \<open>success\<close>: the session stays, nothing is registered.\<close>

lemma success_tick_frame:
  assumes f: "fetch e (PollReq (id' s) (peerId s) (status s)) = Returns r" and ok: "r_success r"
  shows "id' (snd (poll e s)) = id' s" "pollingTimer (snd (poll e s)) = pollingTimer s"
    "extends quiet s (snd (poll e s))"
proof -
  let ?s1 = "snd (poll_recover r (polled s))"
  obtain res s2 where rt: "poll_route e r ?s1 = (res, s2)" by (cases "poll_route e r ?s1")
  have k1: "session_kept (polled s) ?s1"
    using session_kept_recover unfolding keeps_def by blast
  have k2: "session_kept ?s1 s2"
    using session_kept_route [of e r] rt unfolding keeps_def by (metis snd_conv)
  have s2: "id' s2 = id' s" "pollingTimer s2 = pollingTimer s"
    using k1 k2 by (simp_all add: session_kept_def polled_fields)
  have e0: "extends quiet s (polled s)"
    unfolding polled_def by (rule extends_log) (simp add: quiet_def)
  have e1: "extends quiet (polled s) ?s1"
    using extends_recover [of quiet r] unfolding keeps_def by blast
  have e2: "extends quiet ?s1 s2"
    using extends_route [of quiet e r] rt unfolding keeps_def by (metis snd_conv)
  have e3: "extends quiet s s2" using e0 e1 e2 extends_trans by blast
  have p: "poll e s =
     (case res of Returns _ \<Rightarrow> (Returns (), adoptStatus r s2)
      | Throws x \<Rightarrow> (Returns (), log_eff (ConsoleWarn x) s2)
      | Pending \<Rightarrow> (Pending, s2))"
    using poll_success [OF f ok] rt by (simp split: outcome.splits)
  show "id' (snd (poll e s)) = id' s" "pollingTimer (snd (poll e s)) = pollingTimer s"
    using p s2 by (cases res; simp add: adoptStatus_def emit_fields)+
  have "extends quiet s2 (snd (poll e s))"
    using p by (cases res) (simp_all add: adoptStatus_def extends_def log_eff_def quiet_def)
  then show "extends quiet s (snd (poll e s))" using e3 extends_trans by blast
qed

lemma forgetPeer_fields:
  "peerConnection (forgetPeer s) = None" "dataChannel (forgetPeer s) = None"
  "peerId (forgetPeer s) = None" "peerName (forgetPeer s) = JNull"
  "matchList (forgetPeer s) = []" "pendingCandidates (forgetPeer s) = []"
  "id' (forgetPeer s) = id' s" "pollingTimer (forgetPeer s) = pollingTimer s"
  "status (forgetPeer s) = status s" "\<not> isProcessingSignal (forgetPeer s)"
  "trace (forgetPeer s) = trace s @
     (if dataChannel s \<noteq> None then [(isProcessingSignal s, ChannelClose)] else []) @
     (if peerConnection s \<noteq> None then [(isProcessingSignal s, ConnectionClose)] else [])"
  by (simp_all add: forgetPeer_def closeDataChannel_def closePeerConnection_def log_eff_def
      Let_def)

lemma poll_recover_taken:
  "r_next_status r = Some ''wait_offer'' \<Longrightarrow> truthy (peerId s) \<Longrightarrow> \<not> isProcessingSignal s \<Longrightarrow>
   poll_recover r (polled s) = (Returns (), forgetPeer (polled s))"
  by (simp add: poll_recover_def recovers_def handleRecovery_def modify_io_def polled_fields)

lemma poll_route_plain:
  "r_type r \<noteq> Some ''offer'' \<Longrightarrow> r_type r \<noteq> Some ''answer'' \<Longrightarrow> r_type r \<noteq> Some ''ice'' \<Longrightarrow>
   poll_route e r s = updateMatchList r s"
  by (simp add: poll_route_def)


subsection \<open>Ticks that register again\<close>

lemma forgetSession_trace:
  "trace (forgetSession s) = trace s @
     (if dataChannel s \<noteq> None then [(isProcessingSignal s, ChannelClose)] else []) @
     (if peerConnection s \<noteq> None then [(isProcessingSignal s, ConnectionClose)] else []) @
     (if pollingTimer s \<noteq> None then [(False, ClearInterval)] else [])"
  by (simp add: forgetSession_def stopPolling_def closeDataChannel_def closePeerConnection_def
      log_eff_def Let_def)

lemma reregistering_trace:
  "trace (reregistering s) = trace (forgetSession s) @ [(False, ApiCall (reregister_request s))]"
  by (simp add: reregistering_def log_eff_def forgetSession_fields)

lemma registered_trace:
  "\<not> isProcessingSignal s \<Longrightarrow>
   trace (registered rr s) = trace s @
     (False, Emit (Registered (if truthy (r_id rr) then r_id rr else id' s)
        (case r_match_list rr of None \<Rightarrow> [] | Some ml \<Rightarrow> ml))) #
     (if 0 < length (case r_match_list rr of None \<Rightarrow> [] | Some ml \<Rightarrow> ml)
      then [(False, Emit (MatchFound (case r_match_list rr of None \<Rightarrow> [] | Some ml \<Rightarrow> ml)))]
      else []) @
     (if pollingTimer s = None then [(False, SetInterval (pollingInterval s))] else [])"
  by (simp add: registered_def startPolling_def emit_def log_eff_def Let_def)

lemma reregistering_flag: "\<not> isProcessingSignal (reregistering s)"
  by (simp add: reregistering_def log_eff_def forgetSession_fields)

text \<open>What the automatic registration leaves in the trace and in the session.\<close>

lemma reconnect_effects:
  "\<exists>pre post. new_effects s (snd (handleAutoReconnect e s)) =
      pre @ ApiCall (reregister_request s) # post \<and>
      list_all (\<lambda>x. x = ChannelClose \<or> x = ConnectionClose \<or> x = ClearInterval) pre \<and>
      (pollingTimer s \<noteq> None \<longrightarrow> ClearInterval \<in> set pre) \<and>
      (list_ex is_error_event post \<longleftrightarrow> reregistration_fails e s) \<and>
      \<not> list_ex is_reset_event post"
proof -
  let ?pre = "(if dataChannel s \<noteq> None then [ChannelClose] else []) @
     (if peerConnection s \<noteq> None then [ConnectionClose] else []) @
     (if pollingTimer s \<noteq> None then [ClearInterval] else [])"
  have base: "trace (reregistering s) = trace s @
     ((if dataChannel s \<noteq> None then [(isProcessingSignal s, ChannelClose)] else []) @
     (if peerConnection s \<noteq> None then [(isProcessingSignal s, ConnectionClose)] else []) @
     (if pollingTimer s \<noteq> None then [(False, ClearInterval)] else [])) @
     [(False, ApiCall (reregister_request s))]"
    by (simp add: reregistering_trace forgetSession_trace)
  have "\<exists>post. new_effects s (snd (handleAutoReconnect e s)) =
      ?pre @ ApiCall (reregister_request s) # post \<and>
      (list_ex is_error_event post \<longleftrightarrow> reregistration_fails e s) \<and>
      \<not> list_ex is_reset_event post"
  proof (cases "fetch e (reregister_request s)")
    case (Returns rr)
    then show ?thesis
      by (cases "r_success rr")
         (simp_all add: handleAutoReconnect_result reregistration_fails_def new_effects_def
            registered_trace reregistering_flag base emit_def log_eff_def)
  next
    case (Throws x)
    then show ?thesis
      by (simp add: handleAutoReconnect_result reregistration_fails_def new_effects_def
            base emit_def log_eff_def)
  next
    case Pending
    then show ?thesis
      by (simp add: handleAutoReconnect_result reregistration_fails_def new_effects_def base)
  qed
  then obtain post where "new_effects s (snd (handleAutoReconnect e s)) =
      ?pre @ ApiCall (reregister_request s) # post \<and>
      (list_ex is_error_event post \<longleftrightarrow> reregistration_fails e s) \<and>
      \<not> list_ex is_reset_event post" by blast
  moreover have "list_all (\<lambda>x. x = ChannelClose \<or> x = ConnectionClose \<or> x = ClearInterval) ?pre"
    by simp
  moreover have "pollingTimer s \<noteq> None \<longrightarrow> ClearInterval \<in> set ?pre" by simp
  ultimately show ?thesis by blast
qed

lemma reconnect_session:
  "id' (snd (handleAutoReconnect e s)) =
     (case fetch e (reregister_request s) of
        Returns rr \<Rightarrow> if r_success rr \<and> truthy (r_id rr) then r_id rr else None
      | _ \<Rightarrow> None)"
  "pollingTimer (snd (handleAutoReconnect e s)) =
     (case fetch e (reregister_request s) of
        Returns rr \<Rightarrow> if r_success rr then Some (pollingInterval s) else None
      | _ \<Rightarrow> None)"
  by (simp_all add: handleAutoReconnect_result registered_fields reregistering_fields emit_fields
      split: outcome.splits)

lemma reconnect_effects_exact:
  "new_effects s (snd (handleAutoReconnect e s)) =
     (if dataChannel s \<noteq> None then [ChannelClose] else []) @
     (if peerConnection s \<noteq> None then [ConnectionClose] else []) @
     (if pollingTimer s \<noteq> None then [ClearInterval] else []) @
     ApiCall (reregister_request s) #
     (case fetch e (reregister_request s) of
        Returns rr \<Rightarrow>
          if r_success rr
          then Emit (Registered (if truthy (r_id rr) then r_id rr else None)
                      (case r_match_list rr of None \<Rightarrow> [] | Some ml \<Rightarrow> ml)) #
               (if (case r_match_list rr of None \<Rightarrow> [] | Some ml \<Rightarrow> ml) \<noteq> []
                then [Emit (MatchFound (case r_match_list rr of None \<Rightarrow> [] | Some ml \<Rightarrow> ml))]
                else []) @
               [SetInterval (pollingInterval s)]
          else [Emit (ErrorEv (Error (error_message (r_message rr)))),
                ConsoleError (Error (error_message (r_message rr))),
                Emit (ErrorEv (Error (error_message (r_message rr))))]
      | Throws x \<Rightarrow> [Emit (ErrorEv x), ConsoleError x, Emit (ErrorEv x)]
      | Pending \<Rightarrow> [])"
proof -
  have base: "trace (reregistering s) = trace s @
     ((if dataChannel s \<noteq> None then [(isProcessingSignal s, ChannelClose)] else []) @
     (if peerConnection s \<noteq> None then [(isProcessingSignal s, ConnectionClose)] else []) @
     (if pollingTimer s \<noteq> None then [(False, ClearInterval)] else [])) @
     [(False, ApiCall (reregister_request s))]"
    by (simp add: reregistering_trace forgetSession_trace)
  show ?thesis
  proof (cases "fetch e (reregister_request s)")
    case (Returns rr)
    then show ?thesis
      by (cases "r_success rr")
         (simp_all add: handleAutoReconnect_result new_effects_def
            registered_trace reregistering_flag reregistering_fields base emit_def log_eff_def)
  next
    case (Throws x)
    then show ?thesis
      by (simp add: handleAutoReconnect_result new_effects_def base emit_def log_eff_def)
  next
    case Pending
    then show ?thesis
      by (simp add: handleAutoReconnect_result new_effects_def base)
  qed
qed

lemma reregistering_peer:
  "dataChannel (reregistering s) = None" "peerConnection (reregistering s) = None"
  "peerId (reregistering s) = None" "peerName (reregistering s) = JNull"
  "matchList (reregistering s) = []" "pendingCandidates (reregistering s) = []"
  by (simp_all add: reregistering_def log_eff_def forgetSession_fields)

lemma registered_peer:
  "dataChannel (registered rr s) = dataChannel s" "peerConnection (registered rr s) = peerConnection s"
  "peerId (registered rr s) = peerId s" "peerName (registered rr s) = peerName s"
  "pendingCandidates (registered rr s) = pendingCandidates s"
  "matchList (registered rr s) = (case r_match_list rr of None \<Rightarrow> [] | Some ml \<Rightarrow> ml)"
  by (simp_all add: registered_def startPolling_def emit_def log_eff_def Let_def)

lemma log_peer:
  "dataChannel (log_eff x s) = dataChannel s" "peerConnection (log_eff x s) = peerConnection s"
  "peerId (log_eff x s) = peerId s" "peerName (log_eff x s) = peerName s"
  "pendingCandidates (log_eff x s) = pendingCandidates s" "matchList (log_eff x s) = matchList s"
  "dataChannel (emit ev s) = dataChannel s" "peerConnection (emit ev s) = peerConnection s"
  "peerId (emit ev s) = peerId s" "peerName (emit ev s) = peerName s"
  "pendingCandidates (emit ev s) = pendingCandidates s" "matchList (emit ev s) = matchList s"
  by (simp_all add: emit_def log_eff_def)

lemma reconnect_peer:
  "dataChannel (snd (handleAutoReconnect e s)) = None"
  "peerConnection (snd (handleAutoReconnect e s)) = None"
  "peerId (snd (handleAutoReconnect e s)) = None"
  "peerName (snd (handleAutoReconnect e s)) = JNull"
  "pendingCandidates (snd (handleAutoReconnect e s)) = []"
  by (simp_all add: handleAutoReconnect_result registered_peer reregistering_peer log_peer
      split: outcome.splits)

lemma reconnect_outcome:
  "fst (handleAutoReconnect e s) =
     (if fetch e (reregister_request s) = Pending then Pending else Returns ())"
  by (simp add: handleAutoReconnect_result split: outcome.splits)

subsection \<open>What a tick can do to the timer and to the trace\<close>

lemma new_effects_polled:
  "trace s' = trace (polled s) @ new \<Longrightarrow>
   new_effects s s' = ApiCall (PollReq (id' s) (peerId s) (status s)) # new_effects (polled s) s'"
  by (simp add: new_effects_def polled_fields)

lemma reconnect_extends: "\<exists>new. trace (snd (handleAutoReconnect e s)) = trace s @ new"
proof (cases "fetch e (reregister_request s)")
  case (Returns rr)
  then show ?thesis
    by (cases "r_success rr")
       (simp_all add: handleAutoReconnect_result registered_trace reregistering_flag
          reregistering_trace forgetSession_trace emit_def log_eff_def)
next
  case (Throws x)
  then show ?thesis
    by (simp add: handleAutoReconnect_result reregistering_trace forgetSession_trace emit_def
        log_eff_def)
next
  case Pending
  then show ?thesis
    by (simp add: handleAutoReconnect_result reregistering_trace forgetSession_trace)
qed

lemma reconnect_tick_session:
  assumes "fetch e (PollReq (id' s) (peerId s) (status s)) = Returns r" "\<not> r_success r"
    "needs_register r"
  shows "poll e s = handleAutoReconnect e (polled s)"
    "id' (snd (poll e s)) =
       (case fetch e (reregister_request s) of
          Returns rr \<Rightarrow> if r_success rr \<and> truthy (r_id rr) then r_id rr else None
        | _ \<Rightarrow> None)"
    "pollingTimer (snd (poll e s)) =
       (case fetch e (reregister_request s) of
          Returns rr \<Rightarrow> if r_success rr then Some (pollingInterval s) else None
        | _ \<Rightarrow> None)"
proof -
  show p: "poll e s = handleAutoReconnect e (polled s)"
    using poll_failure [OF assms(1,2)] assms(3) by simp
  show "id' (snd (poll e s)) =
       (case fetch e (reregister_request s) of
          Returns rr \<Rightarrow> if r_success rr \<and> truthy (r_id rr) then r_id rr else None
        | _ \<Rightarrow> None)"
    using reconnect_session(1) [of e "polled s"]
    unfolding p [symmetric] reregister_request_polled .
  show "pollingTimer (snd (poll e s)) =
       (case fetch e (reregister_request s) of
          Returns rr \<Rightarrow> if r_success rr then Some (pollingInterval s) else None
        | _ \<Rightarrow> None)"
    using reconnect_session(2) [of e "polled s"]
    unfolding p [symmetric] reregister_request_polled polled_fields .
qed

lemma poll_never_throws: "fst (poll e s) \<noteq> Throws x"
  by (simp add: poll_def catch_io_def split: prod.splits outcome.splits)

lemma poll_logs:
  "fst (poll_try e s) = Throws x \<Longrightarrow>
   poll e s = (Returns (), log_eff (ConsoleWarn x) (snd (poll_try e s)))"
  by (cases "poll_try e s") (simp add: poll_def catch_io_def)

lemma timer_kept:
  assumes "\<not> reconnecting e s"
  shows "pollingTimer (snd (poll e s)) = pollingTimer s"
proof (cases "fetch e (PollReq (id' s) (peerId s) (status s))")
  case (Returns r)
  show ?thesis
  proof (cases "r_success r")
    case True
    then show ?thesis using success_tick_frame(2) [OF Returns True] by simp
  next
    case False
    then show ?thesis using assms Returns poll_failure [OF Returns False]
      by (simp add: reconnecting_def polled_fields)
  qed
next
  case (Throws x)
  then show ?thesis by (simp add: poll_fetch_throws emit_fields polled_fields)
next
  case Pending
  then show ?thesis by (simp add: poll_unanswered polled_fields)
qed

lemma timer_after_reconnect:
  assumes "reconnecting e s"
  shows "pollingTimer (snd (poll e s)) =
     (case fetch e (reregister_request s) of
        Returns rr \<Rightarrow> if r_success rr then Some (pollingInterval s) else None
      | _ \<Rightarrow> None)"
proof -
  obtain r where r: "fetch e (PollReq (id' s) (peerId s) (status s)) = Returns r"
      "\<not> r_success r" "needs_register r"
    using assms by (auto simp: reconnecting_def split: outcome.splits)
  show ?thesis by (rule reconnect_tick_session(3) [OF r])
qed

lemma notifyConnected_timer: "pollingTimer (notifyConnected_settled res s) = pollingTimer s"
  by (simp add: notifyConnected_settled_def emit_fields split: outcome.splits)

lemma stopPolling_timer: "pollingTimer (stopPolling s) = None"
  by (simp add: stopPolling_def log_eff_def)

lemma connected_stops_polling:
  "peerConnection s \<noteq> None \<Longrightarrow>
   pollingTimer (snd (onconnectionstatechange e ''connected'' s)) = None"
  by (auto simp: onconnectionstatechange_def Let_def emit_fields notifyConnected_timer
      stopPolling_timer sendConnected_def apiCall_def)

lemma resetSession_fields:
  "peerConnection (resetSession r s) = None" "dataChannel (resetSession r s) = None"
  "id' (resetSession r s) = None" "status (resetSession r s) = Some ''idle''"
  "pollingTimer (resetSession r s) = None" "peerId (resetSession r s) = None"
  "peerName (resetSession r s) = JNull" "matchList (resetSession r s) = []"
  "pendingCandidates (resetSession r s) = []" "\<not> isProcessingSignal (resetSession r s)"
  "trace (resetSession r s) = trace s @
     (if dataChannel s \<noteq> None then [(isProcessingSignal s, ChannelClose)] else []) @
     (if peerConnection s \<noteq> None then [(isProcessingSignal s, ConnectionClose)] else []) @
     (if pollingTimer s \<noteq> None then [(False, ClearInterval)] else []) @
     [(False, Emit (ResetEv (r_next_status r) (r_message r)))]"
  by (simp_all add: resetSession_def stopPolling_def closeDataChannel_def
      closePeerConnection_def emit_def log_eff_def Let_def)

lemma success_tick_no_reset:
  assumes "fetch e (PollReq (id' s) (peerId s) (status s)) = Returns r" "r_success r"
  shows "\<not> list_ex is_reset_event (new_effects s (snd (poll e s)))"
  using extends_quiet_effects [OF success_tick_frame(3) [OF assms]]
  by (auto simp: list_ex_iff)

lemma poll_no_reset: "\<not> list_ex is_reset_event (new_effects s (snd (poll e s)))"
proof (cases "fetch e (PollReq (id' s) (peerId s) (status s))")
  case (Returns r)
  show ?thesis
  proof (cases "r_success r")
    case True
    then show ?thesis by (rule success_tick_no_reset [OF Returns])
  next
    case False
    show ?thesis
    proof (cases "needs_register r")
      case nr: False
      then show ?thesis using poll_failure [OF Returns False]
        by (simp add: new_effects_def polled_fields)
    next
      case True
      note p = reconnect_tick_session(1) [OF Returns False True]
      obtain new where "trace (snd (poll e s)) = trace (polled s) @ new"
        using reconnect_extends [of e "polled s"] p by auto
      then have ne: "new_effects s (snd (poll e s)) =
          ApiCall (PollReq (id' s) (peerId s) (status s)) #
          new_effects (polled s) (snd (poll e s))"
        by (rule new_effects_polled)
      obtain pre post where pp:
        "new_effects (polled s) (snd (poll e s)) = pre @ ApiCall (reregister_request (polled s)) # post"
        "list_all (\<lambda>x. x = ChannelClose \<or> x = ConnectionClose \<or> x = ClearInterval) pre"
        "\<not> list_ex is_reset_event post"
        using reconnect_effects [of "polled s" e] unfolding p [symmetric] by blast
      have "\<not> list_ex is_reset_event pre"
        using pp(2) by (auto simp: list_ex_iff list_all_iff)
      then show ?thesis unfolding ne pp(1) using pp(3)
        by (simp add: reregister_request_def)
    qed
  qed
next
  case (Throws x)
  then show ?thesis
    by (simp add: poll_fetch_throws new_effects_def polled_fields log_eff_def)
next
  case Pending
  then show ?thesis by (simp add: poll_unanswered new_effects_def polled_fields)
qed

lemma extends_no_reset:
  assumes "extends calm s s'"
  shows "\<not> list_ex is_reset_event (new_effects s s')"
proof -
  obtain new where n: "trace s' = trace s @ new" "list_all calm new"
    using assms by (auto simp: extends_def)
  show ?thesis
    using n(2) by (auto simp: new_effects_append [OF n(1)] list_ex_iff list_all_iff calm_def)
qed

lemma steady_calm: "steady (extends calm)"
proof (rule steady_extends)
  fix b x
  assume "negotiating_effect x"
  then show "calm (b, x)"
    by (cases x rule: negotiating_effect.cases) (simp_all add: calm_def)
qed

lemma calm_registered: "extends calm s (registered rr s)"
  by (simp add: registered_def startPolling_def emit_def log_eff_def Let_def extends_def
      calm_def)

lemma calm_register: "keeps (extends calm) (register e)"
proof -
  have 1: "keeps (extends calm) (sendRegister e)"
    by (simp add: keeps_def sendRegister_def apiCall_def extends_log calm_def)
  have 2: "keeps (extends calm) (\<lambda>s. (Throws x, emit (ErrorEv x) s))" for x :: exn
    by (simp add: keeps_def emit_def extends_log calm_def)
  show ?thesis
    unfolding register_def
    by (intro keeps_catch keeps_bind keeps_if keeps_throw keeps_modify preorder_extends 1 2
          calm_registered)
qed

lemma calm_connect: "keeps (extends calm) (connect e pid)"
proof -
  have 1: "keeps (extends calm) (connect_try e pid)"
    by (rule keeps_connect_try [OF steady_calm]) (simp add: extends_def)
  have 2: "keeps (extends calm) (\<lambda>s. (Throws x, emit (ErrorEv x) (log_eff (ConsoleError x) s)))"
    for x :: exn
    by (simp add: keeps_def emit_def log_eff_def extends_def calm_def)
  show ?thesis
    unfolding connect_def
    by (intro keeps_bind keeps_modify keeps_finally keeps_catch preorder_extends 1 2 extends_flag)
qed

subsection \<open>Ticks that carry a match list\<close>



lemma adoptStatus_fields:
  "matchList (adoptStatus r s) = matchList s" "trace (adoptStatus r s) = trace s"
  "isProcessingSignal (adoptStatus r s) = isProcessingSignal s"
  by (simp_all add: adoptStatus_def)


subsection \<open>Signals that arrive when there is no connection\<close>

lemma preorder_only_logged: "preorder only_logged"
proof -
  have "only_logged s s" for s
    unfolding only_logged_def
    by (rule exI [of _ "trace s"], rule exI [of _ "isProcessingSignal s"]) simp
  moreover have "only_logged a c" if ab: "only_logged a b" and bc: "only_logged b c" for a b c
  proof -
    obtain t f where b: "b = a\<lparr>isProcessingSignal := f, trace := t\<rparr>"
      using ab unfolding only_logged_def by blast
    obtain t' f' where c: "c = b\<lparr>isProcessingSignal := f', trace := t'\<rparr>"
      using bc unfolding only_logged_def by blast
    have "c = a\<lparr>isProcessingSignal := f', trace := t'\<rparr>" unfolding c b by simp
    then show ?thesis unfolding only_logged_def by blast
  qed
  ultimately show ?thesis unfolding preorder_def by blast
qed

lemma only_logged_log: "only_logged s (log_eff x s)"
  unfolding only_logged_def log_eff_def
  by (rule exI [of _ "trace s @ [(isProcessingSignal s, x)]"],
      rule exI [of _ "isProcessingSignal s"]) simp

lemma only_logged_flag: "only_logged s (s\<lparr>isProcessingSignal := b\<rparr>)"
  unfolding only_logged_def
  by (rule exI [of _ "trace s"], rule exI [of _ b]) simp

lemma only_logged_engineCall: "keeps only_logged (engineCall e opn)"
  by (simp add: keeps_def engineCall_def only_logged_log)

lemma only_logged_addIceCandidates: "keeps only_logged (addIceCandidates e cs)"
  by (induction cs)
     (simp_all add: keeps_return keeps_bind keeps_onPeerConnection only_logged_engineCall
        preorder_only_logged addIceCandidate_def)

lemma only_logged_addBundledCandidates: "keeps only_logged (addBundledCandidates e r)"
  unfolding addBundledCandidates_def
  by (simp add: keeps_return only_logged_addIceCandidates preorder_only_logged
      split: option.splits)

lemma only_logged_handleIce: "keeps only_logged (handleIce e r)"
proof -
  have "only_logged s s" for s using preorder_only_logged by (simp add: preorder_def)
  then show ?thesis
    using only_logged_addIceCandidates [of e]
    by (auto simp: keeps_def handleIce_def return_io_def split: option.splits)
qed

lemma only_logged_handleAnswer: "keeps only_logged (handleAnswer e r)"
proof -
  have 1: "keeps only_logged (handleAnswer_try e r)"
    unfolding handleAnswer_try_def
    by (intro keeps_bind keeps_onPeerConnection only_logged_engineCall
          only_logged_addBundledCandidates preorder_only_logged)
  have 2: "keeps only_logged (\<lambda>s. (Throws x, log_eff (ConsoleError x) s))" for x :: exn
    by (simp add: keeps_def only_logged_log)
  show ?thesis
    unfolding handleAnswer_def
    by (intro keeps_bind keeps_modify keeps_finally keeps_catch preorder_only_logged 1 2
          only_logged_flag)
qed


lemma adopt_peer:
  "dataChannel (adoptStatus r s) = dataChannel s" "peerConnection (adoptStatus r s) = peerConnection s"
  "peerId (adoptStatus r s) = peerId s" "peerName (adoptStatus r s) = peerName s"
  "pendingCandidates (adoptStatus r s) = pendingCandidates s"
  by (simp_all add: adoptStatus_def)

lemma adopt_session:
  "id' (adoptStatus r s) = id' s" "pollingTimer (adoptStatus r s) = pollingTimer s"
  "status (adoptStatus r s) = (if status s \<noteq> Some ''connected'' then r_next_status r else status s)"
  by (simp_all add: adoptStatus_def)

lemma handleIce_no_connection:
  "peerConnection s = None \<Longrightarrow> handleIce e r s = (Returns (), s)"
  by (simp add: handleIce_def return_io_def split: option.splits)

lemma handleAnswer_no_connection:
  "peerConnection s = None \<Longrightarrow>
   handleAnswer e r s =
     (Throws TypeError,
      (log_eff (ConsoleError TypeError) (s\<lparr>isProcessingSignal := True\<rparr>))
        \<lparr>isProcessingSignal := False\<rparr>)"
  by (simp add: handleAnswer_def handleAnswer_try_def bind_io_def modify_io_def finally_io_def
      catch_io_def onPeerConnection_def log_eff_def)

lemma updateMatchList_peer:
  "dataChannel (snd (updateMatchList r s)) = dataChannel s"
  "peerConnection (snd (updateMatchList r s)) = peerConnection s"
  "peerId (snd (updateMatchList r s)) = peerId s"
  "peerName (snd (updateMatchList r s)) = peerName s"
  "pendingCandidates (snd (updateMatchList r s)) = pendingCandidates s"
  using updateMatchList_cases [of r s] by (auto simp: log_peer)


subsection \<open>The comparison of match lists\<close>







lemma lists_differ_throws: "lists_differ xs ys = Inl x \<Longrightarrow> x = TypeError"
  using stringify_throws
  by (auto simp: lists_differ_def simp del: JSON_stringify.simps split: sum.splits)










subsection \<open>The two branches of \<open>send\<close>\<close>





section \<open>The claims\<close>

subsection \<open>Status once connected\<close>




subsection \<open>A failed polling response\<close>

text \<open>
  C2, as the claim states it, fails: the message that triggers the automatic
  registration is the API's own (\<open>msg_user_not_found\<close>), not \<open>session not found\<close>. A
  failure response with the message \<open>session not found\<close> and no \<open>next_status\<close> is
  ignored: the tick sends its request and does nothing else.
\<close>

theorem session_not_found_not_reconnected:
  "poll (answering ((bare_response False)\<lparr>r_message := Value ''session not found''\<rparr>)) alice_waiting =
     (Returns (), polled alice_waiting) \<and>
   id' (polled alice_waiting) = Some ''u1'' \<and> pollingTimer (polled alice_waiting) = Some 2000 \<and>
   new_effects alice_waiting (polled alice_waiting) =
     [ApiCall (PollReq (Some ''u1'') None (Some ''wait_offer''))]"
  by (simp add: poll_failure [of _ _ "(bare_response False)\<lparr>r_message := Value ''session not found''\<rparr>"]
      needs_register_def msg_user_not_found_def answering_def bare_response_def
      new_effects_def polled_fields alice_waiting_def alice_def)

text \<open>
  C2, amended. On a tick whose response has no \<open>success\<close>: if \<open>next_status\<close> is
  \<open>register\<close> or the message is the API's user-not-found message, the tick takes the
  automatic-registration path, and otherwise it does nothing beyond its request. On that
  path the effects of the tick are exactly, in this order: the polling request; the
  closing of the channel, the closing of the connection and the stopping of the timer,
  each if it exists; the registration request, sent with \<open>id\<close> null; and what the
  registration leads to, which is \<open>registered\<close>, \<open>matchFound\<close> for a non-empty list and
  the start of the timer when it succeeds, and an \<open>error\<close> event (emitted by \<open>register\<close>
  and again by \<open>_handleAutoReconnect\<close>) when it fails. So an \<open>error\<close> event is emitted
  if and only if the registration fails. At the end the channel, the connection, the
  peer and the pending candidates are cleared, \<open>id\<close> is the one the registration
  response gave (null if it gave none or failed), and the timer runs again only if the
  registration succeeded.
\<close>

theorem failed_poll:
  assumes "fetch e (PollReq (id' s) (peerId s) (status s)) = Returns r" "\<not> r_success r"
  shows "(\<not> needs_register r \<longrightarrow> poll e s = (Returns (), polled s)) \<and>
    (needs_register r \<longrightarrow>
       fst (poll e s) =
         (if fetch e (reregister_request s) = Pending then Pending else Returns ()) \<and>
       new_effects s (snd (poll e s)) =
         ApiCall (PollReq (id' s) (peerId s) (status s)) #
         (if dataChannel s \<noteq> None then [ChannelClose] else []) @
         (if peerConnection s \<noteq> None then [ConnectionClose] else []) @
         (if pollingTimer s \<noteq> None then [ClearInterval] else []) @
         ApiCall (reregister_request s) #
         (case fetch e (reregister_request s) of
            Returns rr \<Rightarrow>
              if r_success rr
              then Emit (Registered (if truthy (r_id rr) then r_id rr else None)
                          (case r_match_list rr of None \<Rightarrow> [] | Some ml \<Rightarrow> ml)) #
                   (if (case r_match_list rr of None \<Rightarrow> [] | Some ml \<Rightarrow> ml) \<noteq> []
                    then [Emit (MatchFound (case r_match_list rr of None \<Rightarrow> [] | Some ml \<Rightarrow> ml))]
                    else []) @
                   [SetInterval (pollingInterval s)]
              else [Emit (ErrorEv (Error (error_message (r_message rr)))),
                    ConsoleError (Error (error_message (r_message rr))),
                    Emit (ErrorEv (Error (error_message (r_message rr))))]
          | Throws x \<Rightarrow> [Emit (ErrorEv x), ConsoleError x, Emit (ErrorEv x)]
          | Pending \<Rightarrow> []) \<and>
       (list_ex is_error_event (new_effects s (snd (poll e s))) \<longleftrightarrow> reregistration_fails e s) \<and>
       dataChannel (snd (poll e s)) = None \<and> peerConnection (snd (poll e s)) = None \<and>
       peerId (snd (poll e s)) = None \<and> peerName (snd (poll e s)) = JNull \<and>
       pendingCandidates (snd (poll e s)) = [] \<and>
       id' (snd (poll e s)) =
         (case fetch e (reregister_request s) of
            Returns rr \<Rightarrow> if r_success rr \<and> truthy (r_id rr) then r_id rr else None
          | _ \<Rightarrow> None) \<and>
       pollingTimer (snd (poll e s)) =
         (case fetch e (reregister_request s) of
            Returns rr \<Rightarrow> if r_success rr then Some (pollingInterval s) else None
          | _ \<Rightarrow> None))"
proof (cases "needs_register r")
  case False
  then show ?thesis using poll_failure [OF assms] by simp
next
  case True
  note p = reconnect_tick_session(1) [OF assms True]
  note b = reconnect_tick_session(2) [OF assms True]
  note c = reconnect_tick_session(3) [OF assms True]
  have o: "fst (poll e s) =
      (if fetch e (reregister_request s) = Pending then Pending else Returns ())"
    unfolding p by (simp add: reconnect_outcome reregister_request_polled)
  obtain new where "trace (snd (poll e s)) = trace (polled s) @ new"
    using reconnect_extends [of e "polled s"] p by auto
  then have ne: "new_effects s (snd (poll e s)) =
      ApiCall (PollReq (id' s) (peerId s) (status s)) # new_effects (polled s) (snd (poll e s))"
    by (rule new_effects_polled)
  have pf: "dataChannel (polled s) = dataChannel s" "peerConnection (polled s) = peerConnection s"
    by (simp_all add: polled_def log_peer)
  note x = reconnect_effects_exact [of "polled s" e, folded p,
      unfolded reregister_request_polled polled_fields pf]
  have ef: "new_effects s (snd (poll e s)) =
         ApiCall (PollReq (id' s) (peerId s) (status s)) #
         (if dataChannel s \<noteq> None then [ChannelClose] else []) @
         (if peerConnection s \<noteq> None then [ConnectionClose] else []) @
         (if pollingTimer s \<noteq> None then [ClearInterval] else []) @
         ApiCall (reregister_request s) #
         (case fetch e (reregister_request s) of
            Returns rr \<Rightarrow>
              if r_success rr
              then Emit (Registered (if truthy (r_id rr) then r_id rr else None)
                          (case r_match_list rr of None \<Rightarrow> [] | Some ml \<Rightarrow> ml)) #
                   (if (case r_match_list rr of None \<Rightarrow> [] | Some ml \<Rightarrow> ml) \<noteq> []
                    then [Emit (MatchFound (case r_match_list rr of None \<Rightarrow> [] | Some ml \<Rightarrow> ml))]
                    else []) @
                   [SetInterval (pollingInterval s)]
              else [Emit (ErrorEv (Error (error_message (r_message rr)))),
                    ConsoleError (Error (error_message (r_message rr))),
                    Emit (ErrorEv (Error (error_message (r_message rr))))]
          | Throws x \<Rightarrow> [Emit (ErrorEv x), ConsoleError x, Emit (ErrorEv x)]
          | Pending \<Rightarrow> [])"
    unfolding ne x ..
  have er: "list_ex is_error_event (new_effects s (snd (poll e s))) \<longleftrightarrow> reregistration_fails e s"
    unfolding ef
    by (simp add: reregistration_fails_def reregister_request_def split: outcome.splits)
  have pe: "dataChannel (snd (poll e s)) = None" "peerConnection (snd (poll e s)) = None"
    "peerId (snd (poll e s)) = None" "peerName (snd (poll e s)) = JNull"
    "pendingCandidates (snd (poll e s)) = []"
    unfolding p by (rule reconnect_peer)+
  show ?thesis using True o ef er pe b c by blast
qed

theorem failed_poll_witness:
  "fetch expired_session
     (PollReq (id' alice_negotiating) (peerId alice_negotiating) (status alice_negotiating)) =
     Returns register_frame \<and>
   \<not> r_success register_frame \<and> needs_register register_frame \<and>
   fst (poll expired_session alice_negotiating) = Returns () \<and>
   new_effects alice_negotiating (snd (poll expired_session alice_negotiating)) =
     [ApiCall (PollReq (Some ''u1'') (Some ''u2'') (Some ''wait_answer'')),
      ChannelClose, ConnectionClose, ClearInterval,
      ApiCall (RegisterReq None ''Alice'' [] [] []),
      Emit (Registered (Some ''u7'') []), SetInterval 2000] \<and>
   dataChannel (snd (poll expired_session alice_negotiating)) = None \<and>
   peerConnection (snd (poll expired_session alice_negotiating)) = None \<and>
   peerId (snd (poll expired_session alice_negotiating)) = None \<and>
   id' (snd (poll expired_session alice_negotiating)) = Some ''u7'' \<and>
   pollingTimer (snd (poll expired_session alice_negotiating)) = Some 2000 \<and>
   fetch lost_session
     (PollReq (id' alice_negotiating) (peerId alice_negotiating) (status alice_negotiating)) =
     Returns register_frame \<and>
   reregistration_fails lost_session alice_negotiating \<and>
   new_effects alice_negotiating (snd (poll lost_session alice_negotiating)) =
     [ApiCall (PollReq (Some ''u1'') (Some ''u2'') (Some ''wait_answer'')),
      ChannelClose, ConnectionClose, ClearInterval,
      ApiCall (RegisterReq None ''Alice'' [] [] []),
      Emit (ErrorEv (FetchError ''Failed to fetch'')),
      ConsoleError (FetchError ''Failed to fetch''),
      Emit (ErrorEv (FetchError ''Failed to fetch''))] \<and>
   pollingTimer (snd (poll lost_session alice_negotiating)) = None \<and>
   \<not> needs_register ((bare_response False)\<lparr>r_message := Value ''session not found''\<rparr>) \<and>
   poll (answering ((bare_response False)\<lparr>r_message := Value ''session not found''\<rparr>))
     alice_negotiating = (Returns (), polled alice_negotiating)"
  using failed_poll [of expired_session alice_negotiating register_frame]
    failed_poll [of lost_session alice_negotiating register_frame]
    failed_poll [of "answering ((bare_response False)\<lparr>r_message := Value ''session not found''\<rparr>)"
      alice_negotiating "(bare_response False)\<lparr>r_message := Value ''session not found''\<rparr>"]
  by (simp add: expired_session_def lost_session_def answering_def register_frame_def
      stale_frame_def bare_response_def needs_register_def reregister_request_def truthy_def
      reregistration_fails_def msg_user_not_found_def
      alice_negotiating_def alice_waiting_def alice_def)

subsection \<open>Soft recovery\<close>

text \<open>
  C3, as the claim states it, fails: the status that triggers the recovery is the string
  \<open>wait_offer\<close>. On a frame whose \<open>next_status\<close> is \<open>waiting_for_offer\<close>, with a peer
  assigned and the flag false, nothing is torn down and the peer stays assigned.
\<close>

theorem waiting_for_offer_not_recovered:
  "peerId (snd (poll (answering ((bare_response True)\<lparr>r_next_status := Some ''waiting_for_offer''\<rparr>))
                  alice_negotiating)) = Some ''u2'' \<and>
   peerConnection (snd (poll (answering ((bare_response True)\<lparr>r_next_status := Some ''waiting_for_offer''\<rparr>))
                  alice_negotiating)) = Some \<lparr>localDescription = Some ''v=0 offer''\<rparr>"
  by (simp add: poll_success [of _ _ "(bare_response True)\<lparr>r_next_status := Some ''waiting_for_offer''\<rparr>"]
      poll_route_plain poll_recover_def recovers_def return_io_def updateMatchList_def adoptStatus_def
      answering_def bare_response_def polled_def log_eff_def
      alice_negotiating_def alice_waiting_def alice_def)

text \<open>
  C3, amended. On a tick whose response has \<open>success\<close> and \<open>next_status\<close> equal to
  \<open>wait_offer\<close>, with \<open>peerId\<close> set to a non-empty string and the flag false, the client
  performs the soft recovery right after the request, whatever else the frame carries:
  the channel and the connection are closed if they exist and both fields are null,
  \<open>peerId\<close>, \<open>peerName\<close>, the match list and the pending candidates are cleared, \<open>id\<close>
  and the timer are as before. The rest of the tick (routing by type, adoption of the
  status) runs from that state, for every frame, and its effects come after those of the
  recovery. Whatever the rest does, at the end of the tick \<open>id\<close> and the timer are
  unchanged and the tick has made no registration call and no timer call. Unless the
  frame is an offer, the peer, the connection, the channel and the pending candidates are
  still cleared at the end of the tick. A frame with candidates finds no connection and
  adds nothing; a frame with an answer finds no connection, so \<open>_handleAnswer\<close> throws a
  TypeError, which is logged, and the status is not adopted; a frame with no signal and
  no match list ends in the recovered state with the frame's status adopted (unless the
  status is \<open>connected\<close>).
\<close>

theorem soft_recovery:
  assumes "fetch e (PollReq (id' s) (peerId s) (status s)) = Returns r" "r_success r"
    and "r_next_status r = Some ''wait_offer''" "truthy (peerId s)" "\<not> isProcessingSignal s"
  shows "snd (poll_recover r (polled s)) = forgetPeer (polled s) \<and>
     peerConnection (forgetPeer (polled s)) = None \<and> dataChannel (forgetPeer (polled s)) = None \<and>
     peerId (forgetPeer (polled s)) = None \<and> peerName (forgetPeer (polled s)) = JNull \<and>
     matchList (forgetPeer (polled s)) = [] \<and> pendingCandidates (forgetPeer (polled s)) = [] \<and>
     id' (forgetPeer (polled s)) = id' s \<and> pollingTimer (forgetPeer (polled s)) = pollingTimer s \<and>
     new_effects s (forgetPeer (polled s)) =
       ApiCall (PollReq (id' s) (peerId s) (status s)) #
       (if dataChannel s \<noteq> None then [ChannelClose] else []) @
       (if peerConnection s \<noteq> None then [ConnectionClose] else []) \<and>
     poll e s =
       (case poll_route e r (forgetPeer (polled s)) of
          (Returns _, s2) \<Rightarrow> (Returns (), adoptStatus r s2)
        | (Throws x, s2) \<Rightarrow> (Returns (), log_eff (ConsoleWarn x) s2)
        | (Pending, s2) \<Rightarrow> (Pending, s2)) \<and>
     (\<exists>rest. new_effects s (snd (poll e s)) = new_effects s (forgetPeer (polled s)) @ rest) \<and>
     id' (snd (poll e s)) = id' s \<and> pollingTimer (snd (poll e s)) = pollingTimer s \<and>
     \<not> list_ex is_register_call (new_effects s (snd (poll e s))) \<and>
     \<not> list_ex is_timer_effect (new_effects s (snd (poll e s))) \<and>
     (r_type r \<noteq> Some ''offer'' \<longrightarrow>
        peerConnection (snd (poll e s)) = None \<and> dataChannel (snd (poll e s)) = None \<and>
        peerId (snd (poll e s)) = None \<and> peerName (snd (poll e s)) = JNull \<and>
        pendingCandidates (snd (poll e s)) = []) \<and>
     (r_type r = Some ''answer'' \<longrightarrow>
        poll e s =
          (Returns (),
           log_eff (ConsoleWarn TypeError)
             ((log_eff (ConsoleError TypeError)
                 ((forgetPeer (polled s))\<lparr>isProcessingSignal := True\<rparr>))
                \<lparr>isProcessingSignal := False\<rparr>))) \<and>
     (r_type r = Some ''ice'' \<longrightarrow>
        poll e s = (Returns (), adoptStatus r (forgetPeer (polled s)))) \<and>
     (r_type r \<noteq> Some ''offer'' \<and> r_type r \<noteq> Some ''answer'' \<and> r_type r \<noteq> Some ''ice'' \<and>
      (r_match_list r = None \<or> r_match_list r = Some []) \<longrightarrow>
        poll e s = (Returns (), adoptStatus r (forgetPeer (polled s))))"
proof -
  let ?s1 = "forgetPeer (polled s)"
  have rec: "poll_recover r (polled s) = (Returns (), ?s1)"
    by (rule poll_recover_taken [OF assms(3-5)])
  have tr: "trace ?s1 = trace s @
       (isProcessingSignal s, ApiCall (PollReq (id' s) (peerId s) (status s))) #
       (if dataChannel s \<noteq> None then [(isProcessingSignal s, ChannelClose)] else []) @
       (if peerConnection s \<noteq> None then [(isProcessingSignal s, ConnectionClose)] else [])"
    by (simp add: forgetPeer_fields polled_def log_eff_def)
  have ne: "new_effects s ?s1 =
       ApiCall (PollReq (id' s) (peerId s) (status s)) #
       (if dataChannel s \<noteq> None then [ChannelClose] else []) @
       (if peerConnection s \<noteq> None then [ConnectionClose] else [])"
    by (simp add: new_effects_append [OF tr])
  have q: "\<not> list_ex is_register_call (new_effects s (snd (poll e s)))"
      "\<not> list_ex is_timer_effect (new_effects s (snd (poll e s)))"
    using extends_quiet_effects [OF success_tick_frame(3) [OF assms(1,2)]]
    by (auto simp: list_ex_iff)
  have whole: "poll e s =
       (case poll_route e r ?s1 of
          (Returns _, s2) \<Rightarrow> (Returns (), adoptStatus r s2)
        | (Throws x, s2) \<Rightarrow> (Returns (), log_eff (ConsoleWarn x) s2)
        | (Pending, s2) \<Rightarrow> (Pending, s2))"
    using poll_success [OF assms(1,2)] rec by simp
  obtain res s2 where rt: "poll_route e r ?s1 = (res, s2)" by (cases "poll_route e r ?s1")
  have "extends (\<lambda>_. True) ?s1 s2"
    using extends_route [of "\<lambda>_. True" e r] rt unfolding keeps_def by (metis snd_conv)
  moreover have "extends (\<lambda>_. True) s2 (snd (poll e s))"
    unfolding whole rt by (cases res) (simp_all add: adoptStatus_def extends_def log_eff_def)
  ultimately have "extends (\<lambda>_. True) ?s1 (snd (poll e s))" by (rule extends_trans)
  then obtain new where new: "trace (snd (poll e s)) = trace ?s1 @ new"
    by (auto simp: extends_def)
  have pre: "\<exists>rest. new_effects s (snd (poll e s)) = new_effects s ?s1 @ rest"
    unfolding new_effects_def new tr by simp
  have ice: "poll e s = (Returns (), adoptStatus r ?s1)" if "r_type r = Some ''ice''"
    unfolding whole using that
    by (simp add: poll_route_def handleIce_no_connection forgetPeer_fields)
  have ans: "poll e s =
          (Returns (),
           log_eff (ConsoleWarn TypeError)
             ((log_eff (ConsoleError TypeError) (?s1\<lparr>isProcessingSignal := True\<rparr>))
                \<lparr>isProcessingSignal := False\<rparr>))" if "r_type r = Some ''answer''"
    unfolding whole using that
    by (simp add: poll_route_def handleAnswer_no_connection forgetPeer_fields)
  have plain: "poll e s = (Returns (), adoptStatus r ?s1)"
    if "r_type r \<noteq> Some ''offer''" "r_type r \<noteq> Some ''answer''" "r_type r \<noteq> Some ''ice''"
      "r_match_list r = None \<or> r_match_list r = Some []"
    unfolding whole using that
    by (auto simp: poll_route_plain updateMatchList_def)
  have gone: "peerConnection (snd (poll e s)) = None \<and> dataChannel (snd (poll e s)) = None \<and>
        peerId (snd (poll e s)) = None \<and> peerName (snd (poll e s)) = JNull \<and>
        pendingCandidates (snd (poll e s)) = []" if no: "r_type r \<noteq> Some ''offer''"
  proof -
    consider (a) "r_type r = Some ''answer''" | (i) "r_type r = Some ''ice''"
      | (o) "r_type r \<noteq> Some ''answer''" "r_type r \<noteq> Some ''ice''" by blast
    then show ?thesis
    proof cases
      case a
      show ?thesis unfolding ans [OF a] by (simp add: log_peer forgetPeer_fields)
    next
      case i
      show ?thesis unfolding ice [OF i] by (simp add: adopt_peer forgetPeer_fields)
    next
      case o
      obtain res' s3 where u: "updateMatchList r ?s1 = (res', s3)"
        by (cases "updateMatchList r ?s1")
      have s3: "dataChannel s3 = None" "peerConnection s3 = None" "peerId s3 = None"
        "peerName s3 = JNull" "pendingCandidates s3 = []"
        using updateMatchList_peer [of r ?s1] u by (simp_all add: forgetPeer_fields)
      show ?thesis
        unfolding whole poll_route_plain [OF no o] u
        by (cases res') (simp_all add: adopt_peer log_peer s3)
    qed
  qed
  show ?thesis
    using rec ne q whole pre ice ans plain gone success_tick_frame(1,2) [OF assms(1,2)]
    by (simp add: forgetPeer_fields polled_fields)
qed

theorem soft_recovery_witness:
  "fetch (answering stale_frame)
     (PollReq (id' alice_negotiating) (peerId alice_negotiating) (status alice_negotiating)) =
     Returns stale_frame \<and>
   r_success stale_frame \<and> r_next_status stale_frame = Some ''wait_offer'' \<and>
   truthy (peerId alice_negotiating) \<and> \<not> isProcessingSignal alice_negotiating \<and>
   fst (poll (answering stale_frame) alice_negotiating) = Returns () \<and>
   peerId (snd (poll (answering stale_frame) alice_negotiating)) = None \<and>
   peerConnection (snd (poll (answering stale_frame) alice_negotiating)) = None \<and>
   matchList (snd (poll (answering stale_frame) alice_negotiating)) = [] \<and>
   id' (snd (poll (answering stale_frame) alice_negotiating)) = Some ''u1'' \<and>
   pollingTimer (snd (poll (answering stale_frame) alice_negotiating)) = Some 2000 \<and>
   status (snd (poll (answering stale_frame) alice_negotiating)) = Some ''wait_offer'' \<and>
   new_effects alice_negotiating (snd (poll (answering stale_frame) alice_negotiating)) =
     [ApiCall (PollReq (Some ''u1'') (Some ''u2'') (Some ''wait_answer'')),
      ChannelClose, ConnectionClose] \<and>
   r_type (stale_frame\<lparr>r_type := Some ''ice'', r_candidates := Some [''candidate:9'']\<rparr>) =
     Some ''ice'' \<and>
   new_effects alice_negotiating
     (snd (poll (answering (stale_frame\<lparr>r_type := Some ''ice'',
                              r_candidates := Some [''candidate:9'']\<rparr>)) alice_negotiating)) =
     [ApiCall (PollReq (Some ''u1'') (Some ''u2'') (Some ''wait_answer'')),
      ChannelClose, ConnectionClose] \<and>
   peerId (snd (poll (answering (stale_frame\<lparr>r_type := Some ''ice'',
                              r_candidates := Some [''candidate:9'']\<rparr>)) alice_negotiating)) =
     None \<and>
   r_type (stale_frame\<lparr>r_type := Some ''answer'', r_sdp := Some ''v=0 answer''\<rparr>) =
     Some ''answer'' \<and>
   new_effects alice_negotiating
     (snd (poll (answering (stale_frame\<lparr>r_type := Some ''answer'',
                              r_sdp := Some ''v=0 answer''\<rparr>)) alice_negotiating)) =
     [ApiCall (PollReq (Some ''u1'') (Some ''u2'') (Some ''wait_answer'')),
      ChannelClose, ConnectionClose, ConsoleError TypeError, ConsoleWarn TypeError] \<and>
   status (snd (poll (answering (stale_frame\<lparr>r_type := Some ''answer'',
                              r_sdp := Some ''v=0 answer''\<rparr>)) alice_negotiating)) =
     Some ''wait_answer''"
proof -
  let ?s = alice_negotiating
  let ?i = "stale_frame\<lparr>r_type := Some ''ice'', r_candidates := Some [''candidate:9'']\<rparr>"
  let ?a = "stale_frame\<lparr>r_type := Some ''answer'', r_sdp := Some ''v=0 answer''\<rparr>"
  have s: "truthy (peerId ?s)" "\<not> isProcessingSignal ?s" "id' ?s = Some ''u1''"
    "peerId ?s = Some ''u2''" "status ?s = Some ''wait_answer''" "pollingTimer ?s = Some 2000"
    "dataChannel ?s \<noteq> None" "peerConnection ?s \<noteq> None"
    by (simp_all add: alice_negotiating_def alice_waiting_def alice_def truthy_def)
  have f: "fetch (answering r) req = Returns r" for r req
    by (simp add: answering_def)
  have p: "r_success stale_frame" "r_next_status stale_frame = Some ''wait_offer''"
    "r_type stale_frame \<noteq> Some ''offer''" "r_type stale_frame \<noteq> Some ''answer''"
    "r_type stale_frame \<noteq> Some ''ice''" "r_match_list stale_frame = None"
    "r_success ?i" "r_next_status ?i = Some ''wait_offer''" "r_type ?i = Some ''ice''"
    "r_success ?a" "r_next_status ?a = Some ''wait_offer''" "r_type ?a = Some ''answer''"
    by (simp_all add: stale_frame_def bare_response_def)
  note t1 = soft_recovery [OF f p(1,2) s(1,2)]
  note t2 = soft_recovery [OF f p(7,8) s(1,2)]
  note t3 = soft_recovery [OF f p(10,11) s(1,2)]
  have ne: "new_effects ?s (forgetPeer (polled ?s)) =
      [ApiCall (PollReq (Some ''u1'') (Some ''u2'') (Some ''wait_answer'')),
       ChannelClose, ConnectionClose]"
    using t1 s by simp
  have e1: "poll (answering stale_frame) ?s =
      (Returns (), adoptStatus stale_frame (forgetPeer (polled ?s)))"
    using t1 p(3-6) by blast
  have e2: "poll (answering ?i) ?s = (Returns (), adoptStatus ?i (forgetPeer (polled ?s)))"
    using t2 p(9) by blast
  have e3: "poll (answering ?a) ?s =
      (Returns (),
       log_eff (ConsoleWarn TypeError)
         ((log_eff (ConsoleError TypeError) ((forgetPeer (polled ?s))\<lparr>isProcessingSignal := True\<rparr>))
            \<lparr>isProcessingSignal := False\<rparr>))"
    using t3 p(12) by blast
  have n3: "new_effects ?s
      (log_eff (ConsoleWarn TypeError)
         ((log_eff (ConsoleError TypeError) ((forgetPeer (polled ?s))\<lparr>isProcessingSignal := True\<rparr>))
            \<lparr>isProcessingSignal := False\<rparr>)) =
      new_effects ?s (forgetPeer (polled ?s)) @ [ConsoleError TypeError, ConsoleWarn TypeError]"
    by (simp add: new_effects_def log_eff_def forgetPeer_fields polled_fields)
  have n1: "new_effects ?s (adoptStatus r (forgetPeer (polled ?s))) =
      new_effects ?s (forgetPeer (polled ?s))" for r
    by (simp add: new_effects_def adoptStatus_fields)
  show ?thesis
    unfolding e1 e2 e3
    by (simp add: f p s n1 n3 ne adopt_session adopt_peer adoptStatus_fields forgetPeer_fields
        polled_fields emit_fields truthy_def)
qed

subsection \<open>The processing flag\<close>

text \<open>
  C4, as the claim states it, fails: \<open>_handleIce\<close> does not set the flag. Here it adds
  one candidate on a client whose flag is false, and the call into the engine is made
  with the flag false.
\<close>

theorem handleIce_leaves_flag_false:
  "trace (snd (handleIce (answering stale_frame)
            (stale_frame\<lparr>r_type := Some ''ice'', r_candidates := Some [''candidate:9'']\<rparr>)
            alice_negotiating)) =
     [(False, EngineCall (AddIceCandidate ''candidate:9''))]"
  by (simp add: handleIce_def addIceCandidate_def onPeerConnection_def engineCall_def
      bind_io_def return_io_def log_eff_def answering_def stale_frame_def bare_response_def
      alice_negotiating_def alice_waiting_def alice_def)

text \<open>
  C4, amended. \<open>connect\<close>, \<open>_handleOffer\<close> and \<open>_handleAnswer\<close> set the flag on entry and
  clear it in \<open>finally\<close>: every effect of the operation is made with the flag true, and
  when the operation ends, by return or by throw, the flag is false (it is still true
  exactly when the operation is suspended on a request that is never answered).
  \<open>_handleIce\<close> never writes the flag: it ends with the value it began with and all its
  effects are made with that value. \<open>disconnect\<close> never sets the flag, it only clears
  it: its closing effects are made with the value it began with, its emission with false.
\<close>

theorem processing_flag_guard:
  "(\<exists>new. trace (snd (connect e pid s)) = trace s @ new \<and> list_all fst new) \<and>
   (isProcessingSignal (snd (connect e pid s)) \<longleftrightarrow> fst (connect e pid s) = Pending) \<and>
   (\<exists>new. trace (snd (handleOffer e r s)) = trace s @ new \<and> list_all fst new) \<and>
   (isProcessingSignal (snd (handleOffer e r s)) \<longleftrightarrow> fst (handleOffer e r s) = Pending) \<and>
   (\<exists>new. trace (snd (handleAnswer e r s)) = trace s @ new \<and> list_all fst new) \<and>
   (isProcessingSignal (snd (handleAnswer e r s)) \<longleftrightarrow> fst (handleAnswer e r s) = Pending) \<and>
   isProcessingSignal (snd (handleIce e r s)) = isProcessingSignal s \<and>
   (\<exists>new. trace (snd (handleIce e r s)) = trace s @ new \<and>
          list_all (\<lambda>x. fst x = isProcessingSignal s) new) \<and>
   \<not> isProcessingSignal (snd (disconnect s)) \<and>
   (\<exists>new. trace (snd (disconnect s)) = trace s @ new \<and>
          list_all (\<lambda>x. fst x = (isProcessingSignal s \<and> snd x \<noteq> Emit (Disconnected ''user'')))
            new)"
  using connect_flag [of e pid s] handleOffer_flag [of e r s] handleAnswer_flag [of e r s]
    handleIce_flag [of e r s] disconnect_flag [of s]
  by simp

subsection \<open>Two calls of \<open>disconnect\<close>\<close>

text \<open>
  C5, as the claim states it, fails: two calls of \<open>disconnect()\<close> in a row emit
  \<open>disconnected\<close> twice. Here the client is a freshly built one.
\<close>

theorem disconnect_twice_emits_twice:
  "new_effects alice (snd (disconnect (snd (disconnect alice)))) =
     [Emit (Disconnected ''user''), Emit (Disconnected ''user'')]"
  by (simp add: disconnect_run stopPolling_def closeDataChannel_def closePeerConnection_def
      emit_def log_eff_def new_effects_def alice_def)

text \<open>
  C5, amended. \<open>disconnect()\<close> returns, from every state: it never throws and never
  stays suspended. A call stops the timer, closes the channel and closes the connection,
  each if it exists, and then emits \<open>disconnected\<close> with reason \<open>user\<close>, once, whatever
  the state it is called in. A second call right after the first finds nothing to stop
  or to close and leaves every field as the first call left it, but it emits again: the
  two calls together emit \<open>disconnected\<close> twice.
\<close>

theorem disconnect_twice:
  "fst (disconnect s) = Returns () \<and>
   new_effects s (snd (disconnect s)) =
     (if pollingTimer s \<noteq> None then [ClearInterval] else []) @
     (if dataChannel s \<noteq> None then [ChannelClose] else []) @
     (if peerConnection s \<noteq> None then [ConnectionClose] else []) @
     [Emit (Disconnected ''user'')] \<and>
   fst (disconnect (snd (disconnect s))) = Returns () \<and>
   snd (disconnect (snd (disconnect s))) =
     (snd (disconnect s))\<lparr>trace := trace (snd (disconnect s)) @
                                 [(False, Emit (Disconnected ''user''))]\<rparr> \<and>
   new_effects s (snd (disconnect (snd (disconnect s)))) =
     new_effects s (snd (disconnect s)) @ [Emit (Disconnected ''user'')] \<and>
   length (filter (\<lambda>x. x = Emit (Disconnected ''user''))
            (new_effects s (snd (disconnect (snd (disconnect s)))))) = 2"
proof -
  let ?d = "snd (disconnect s)"
  have 1: "fst (disconnect s') = Returns ()" for s'
    by (simp add: disconnect_run)
  have 2: "new_effects s ?d =
     (if pollingTimer s \<noteq> None then [ClearInterval] else []) @
     (if dataChannel s \<noteq> None then [ChannelClose] else []) @
     (if peerConnection s \<noteq> None then [ConnectionClose] else []) @
     [Emit (Disconnected ''user'')]"
    by (simp add: new_effects_def disconnect_trace)
  have 3: "snd (disconnect ?d) = ?d\<lparr>trace := trace ?d @ [(False, Emit (Disconnected ''user''))]\<rparr>"
    by (rule disconnect_settled) (rule disconnect_fields)+
  have 4: "new_effects s (snd (disconnect ?d)) = new_effects s ?d @ [Emit (Disconnected ''user'')]"
    unfolding 3 by (simp add: new_effects_def disconnect_trace)
  have 5: "length (filter (\<lambda>x. x = Emit (Disconnected ''user''))
            (new_effects s (snd (disconnect ?d)))) = 2"
    unfolding 4 2 by simp
  show ?thesis using 1 2 3 4 5 by blast
qed

subsection \<open>The match list\<close>




subsection \<open>Exceptions in a tick and the polling timer\<close>

text \<open>
  C7, as the claim states it, fails: a failure inside one tick can stop the polling
  loop. Here the polling response asks for registration and the registration request
  throws; the exception is caught in the tick, and the tick ends with the timer stopped.
\<close>

theorem failed_registration_stops_polling:
  "pollingTimer alice_waiting = Some 2000 \<and>
   fst (poll lost_session alice_waiting) = Returns () \<and>
   pollingTimer (snd (poll lost_session alice_waiting)) = None"
  using poll_failure [of lost_session alice_waiting register_frame]
    reconnect_session(2) [of lost_session "polled alice_waiting"]
  by (simp add: handleAutoReconnect_result lost_session_def answering_def register_frame_def
      bare_response_def needs_register_def reregister_request_def polled_fields
      alice_waiting_def alice_def)

text \<open>
  C7, amended. A tick never throws: an exception raised while it is processed is caught
  in the tick and logged with \<open>console.warn\<close>. A tick leaves the polling timer as it
  was unless it takes the automatic-registration path; that path stops the timer and
  starts it again only if the new registration succeeds, so when the registration fails
  the tick leaves polling stopped. The timer is also stopped by \<open>disconnect()\<close>, by
  \<open>_handleReset\<close> and by the connection reporting the state \<open>connected\<close>.
\<close>

theorem tick_contains_exceptions:
  "fst (poll e s) \<noteq> Throws x \<and>
   (fst (poll_try e s) = Throws x \<longrightarrow>
      poll e s = (Returns (), log_eff (ConsoleWarn x) (snd (poll_try e s)))) \<and>
   (\<not> reconnecting e s \<longrightarrow> pollingTimer (snd (poll e s)) = pollingTimer s) \<and>
   (reconnecting e s \<longrightarrow>
      pollingTimer (snd (poll e s)) =
        (case fetch e (reregister_request s) of
           Returns rr \<Rightarrow> if r_success rr then Some (pollingInterval s) else None
         | _ \<Rightarrow> None)) \<and>
   pollingTimer (snd (disconnect s)) = None \<and>
   pollingTimer (snd (handleReset r s)) = None \<and>
   (peerConnection s \<noteq> None \<longrightarrow>
      pollingTimer (snd (onconnectionstatechange e ''connected'' s)) = None)"
  using poll_never_throws [of e s x] poll_logs [of e s x] timer_kept [of e s]
    timer_after_reconnect [of e s] connected_stops_polling [of s e]
  by (simp add: disconnect_fields handleReset_def modify_io_def resetSession_fields)

theorem tick_contains_exceptions_witness:
  "fst (poll_try offline alice_waiting) = Throws (FetchError ''Failed to fetch'') \<and>
   fst (poll offline alice_waiting) = Returns () \<and>
   \<not> reconnecting offline alice_waiting \<and>
   pollingTimer (snd (poll offline alice_waiting)) = Some 2000 \<and>
   reconnecting expired_session alice_waiting \<and>
   pollingTimer (snd (poll expired_session alice_waiting)) = Some 2000 \<and>
   peerConnection alice_negotiating \<noteq> None \<and>
   pollingTimer (snd (onconnectionstatechange offline ''connected'' alice_negotiating)) = None"
  using tick_contains_exceptions
      [where e = offline and s = alice_waiting and x = "FetchError ''Failed to fetch''"
         and r = stale_frame]
    tick_contains_exceptions
      [where e = expired_session and s = alice_waiting and x = TypeError and r = stale_frame]
    tick_contains_exceptions
      [where e = offline and s = alice_negotiating and x = TypeError and r = stale_frame]
  by (simp add: poll_try_def sendPoll_def apiCall_def bind_io_def reconnecting_def
      offline_def expired_session_def answering_def register_frame_def stale_frame_def
      bare_response_def needs_register_def reregister_request_def emit_fields
      alice_negotiating_def alice_waiting_def alice_def)

subsection \<open>Hard reset\<close>

text \<open>
  C8, as the claim states it, fails: nothing calls \<open>_handleReset\<close>. On the response by
  which the server asks for a full restart (failure, \<open>next_status\<close> \<open>register\<close>) the
  tick registers again by itself: the client ends with the new identifier and the status
  of the registration response, polling, and no \<open>reset\<close> event was emitted.
\<close>

theorem restart_frame_registers_again:
  "status (snd (poll expired_session alice_negotiating)) = Some ''wait_offer'' \<and>
   id' (snd (poll expired_session alice_negotiating)) = Some ''u7'' \<and>
   pollingTimer (snd (poll expired_session alice_negotiating)) = Some 2000 \<and>
   \<not> list_ex is_reset_event
       (new_effects alice_negotiating (snd (poll expired_session alice_negotiating)))"
  using reconnect_tick_session [of expired_session alice_negotiating register_frame]
    status_after_reconnect [of expired_session "polled alice_negotiating"]
    poll_no_reset [of alice_negotiating expired_session]
  by (simp add: expired_session_def answering_def register_frame_def stale_frame_def
      bare_response_def needs_register_def reregister_request_def truthy_def polled_fields
      alice_negotiating_def alice_waiting_def alice_def)

text \<open>
  C8, amended. \<open>_handleReset(response)\<close>, when it is called, closes the channel and the
  connection and nulls both, clears \<open>id\<close>, sets the status to \<open>idle\<close>, stops the timer
  and then emits \<open>reset\<close> with the response's \<open>next_status\<close> and message; these are all
  its effects, so it does not register. No operation that receives a server response
  calls it: neither a polling tick nor \<open>register\<close> nor \<open>connect\<close> ever emits \<open>reset\<close>.
\<close>

theorem hard_reset:
  "handleReset r s = (Returns (), resetSession r s) \<and>
   peerConnection (resetSession r s) = None \<and> dataChannel (resetSession r s) = None \<and>
   id' (resetSession r s) = None \<and> status (resetSession r s) = Some ''idle'' \<and>
   pollingTimer (resetSession r s) = None \<and>
   new_effects s (resetSession r s) =
     (if dataChannel s \<noteq> None then [ChannelClose] else []) @
     (if peerConnection s \<noteq> None then [ConnectionClose] else []) @
     (if pollingTimer s \<noteq> None then [ClearInterval] else []) @
     [Emit (ResetEv (r_next_status r) (r_message r))] \<and>
   \<not> list_ex is_register_call (new_effects s (resetSession r s)) \<and>
   \<not> list_ex is_reset_event (new_effects s (snd (poll e s))) \<and>
   \<not> list_ex is_reset_event (new_effects s (snd (register e s))) \<and>
   \<not> list_ex is_reset_event (new_effects s (snd (connect e pid s)))"
proof -
  have "\<not> list_ex is_reset_event (new_effects s (snd (register e s)))"
    using calm_register [of e] unfolding keeps_def by (intro extends_no_reset) blast
  moreover have "\<not> list_ex is_reset_event (new_effects s (snd (connect e pid s)))"
    using calm_connect [of e pid] unfolding keeps_def by (intro extends_no_reset) blast
  ultimately show ?thesis
    using poll_no_reset [of s e]
    by (simp add: handleReset_def modify_io_def resetSession_fields new_effects_def)
qed

subsection \<open>The wait for candidates\<close>

text \<open>
  C9. The wait for candidates always ends. Whatever the engine reports, the call is never
  left pending: with a connection present it returns, at most 1000 ms after it began,
  and when the gathering-state changes come in the order of their times it returns at the
  first change that reads \<open>complete\<close> if that comes before 1000 ms, and at 1000 ms
  otherwise, also when gathering never completes. (Without a connection the call throws.)
\<close>

theorem waitForIceCandidates_settles:
  "fst (waitForIceCandidates e s) \<noteq> Pending \<and>
   (peerConnection s \<noteq> None \<longrightarrow>
      (\<exists>t. t \<le> 1000 \<and> fst (waitForIceCandidates e s) = Returns t)) \<and>
   (peerConnection s \<noteq> None \<longrightarrow> sorted (map fst (gathering e)) \<longrightarrow>
      fst (waitForIceCandidates e s) =
        Returns (case first_complete (gathering e) of None \<Rightarrow> 1000 | Some tc \<Rightarrow> min tc 1000))"
proof -
  let ?w = "\<lparr>deadline = Some 1000, resolved = None\<rparr>"
  obtain t where t: "resolved (run_wait (gathering e) ?w) = Some t" "t \<le> 1000"
    using run_wait_armed [of ?w 1000 "gathering e"] by auto
  have "sorted (map fst (gathering e)) \<Longrightarrow>
        t = (case first_complete (gathering e) of None \<Rightarrow> 1000 | Some tc \<Rightarrow> min tc 1000)"
    using run_wait_sorted [of ?w 1000 "gathering e"] t by simp
  then show ?thesis using t by (auto simp: waitForIceCandidates_def)
qed

theorem waitForIceCandidates_settles_witness:
  "peerConnection alice_negotiating \<noteq> None \<and>
   sorted (map fst (gathering (answering (bare_response True)))) \<and>
   fst (waitForIceCandidates (answering (bare_response True)) alice_negotiating) = Returns 480 \<and>
   fst (waitForIceCandidates
          ((answering (bare_response True))\<lparr>gathering := [(300, ''gathering'')]\<rparr>)
          alice_negotiating) = Returns 1000"
  using waitForIceCandidates_settles [of "answering (bare_response True)" alice_negotiating]
    waitForIceCandidates_settles
      [of "(answering (bare_response True))\<lparr>gathering := [(300, ''gathering'')]\<rparr>"
          alice_negotiating]
  by (simp add: answering_def alice_negotiating_def alice_waiting_def alice_def)

subsection \<open>\<open>send\<close>\<close>




end
